theory Spec2Isabelle
  imports Complex_Main "HOL-Library.Word" "HOL-Library.List_Lexorder"
begin

section \<open>JavaScript values\<close>

text \<open>
  A JavaScript string is a sequence of UTF-16 code units; \<open>length\<close>, \<open>substring\<close>,
  \<open>split\<close>, \<open>includes\<close> and \<open>startsWith\<close> all count code units.  String literals of
  the source are written \<open>str ''...''\<close>; the few non-ASCII characters of the source
  text are given by their code units.
\<close>

type_synonym jsstring = "16 word list"

definition str :: "string \<Rightarrow> jsstring" where
  "str s = map of_char s"

text \<open>
  Values that come out of \<open>JSON.parse\<close> or \<open>response.json()\<close> are not checked
  against the TypeScript annotations at run time, so they are kept as untyped values.
  JSON numbers are doubles; every double is a rational, and only its being zero matters
  below.
\<close>

datatype jsvalue =
    JUndefined
  | JNull
  | JBool bool
  | JNumber rat
  | JString jsstring
  | JArray "jsvalue list"
  | JObject "(jsstring \<times> jsvalue) list"

text \<open>A thrown value: an \<open>Error\<close> object with its message, or anything else (with
  what \<open>String(reason)\<close> makes of it).\<close>

datatype thrown = Error jsstring | NonError jsstring

text \<open>\<open>URIError\<close> and \<open>TypeError\<close> are \<open>Error\<close> objects.  The message of
  the \<open>URIError\<close> is the one of V8, the engine of the Node.js server the actions run
  on.  The message of a \<open>TypeError\<close> names the property that was read; every
  \<open>TypeError\<close> below is caught where it is thrown and its message is never used.\<close>

definition URIError :: thrown where
  "URIError = Error (str ''URI malformed'')"

definition TypeError :: thrown where
  "TypeError = Error (str ''TypeError'')"

fun truthy :: "jsvalue \<Rightarrow> bool" where
  "truthy JUndefined = False"
| "truthy JNull = False"
| "truthy (JBool b) = b"
| "truthy (JNumber n) = (n \<noteq> 0)"
| "truthy (JString s) = (s \<noteq> [])"
| "truthy (JArray xs) = True"
| "truthy (JObject kvs) = True"

text \<open>\<open>!s\<close> for a \<open>string | null\<close>: null and the empty string are falsy.\<close>

fun falsy_string :: "jsstring option \<Rightarrow> bool" where
  "falsy_string None = True"
| "falsy_string (Some s) = (s = [])"

text \<open>\<open>x || ''\<close> for a string that may be missing.\<close>

fun or_empty :: "jsstring option \<Rightarrow> jsstring" where
  "or_empty None = []"
| "or_empty (Some s) = s"

subsection \<open>String operations\<close>

text \<open>WhiteSpace and LineTerminator code points, which \<open>trim\<close> and \<open>\s\<close> remove.\<close>

definition isWhiteSpace :: "16 word \<Rightarrow> bool" where
  "isWhiteSpace c \<longleftrightarrow>
     c = 0x09 \<or> c = 0x0A \<or> c = 0x0B \<or> c = 0x0C \<or> c = 0x0D \<or> c = 0x20 \<or> c = 0xA0 \<or>
     c = 0x1680 \<or> (0x2000 \<le> c \<and> c \<le> 0x200A) \<or> c = 0x2028 \<or> c = 0x2029 \<or>
     c = 0x202F \<or> c = 0x205F \<or> c = 0x3000 \<or> c = 0xFEFF"

definition trim :: "jsstring \<Rightarrow> jsstring" where
  "trim s = rev (dropWhile isWhiteSpace (rev (dropWhile isWhiteSpace s)))"

text \<open>\<open>s.split('\n')\<close>: the empty string gives one empty line.\<close>

fun split_lines :: "jsstring \<Rightarrow> jsstring list" where
  "split_lines [] = [[]]"
| "split_lines (c # cs) =
     (if c = 0x0A then [] # split_lines cs
      else (case split_lines cs of
              [] \<Rightarrow> [[c]]
            | l # ls \<Rightarrow> (c # l) # ls))"

definition startsWith :: "jsstring \<Rightarrow> jsstring \<Rightarrow> bool" where
  "startsWith s p \<longleftrightarrow> take (length p) s = p"

fun includes_str :: "jsstring \<Rightarrow> jsstring \<Rightarrow> bool" where
  "includes_str [] p = (p = [])"
| "includes_str (c # cs) p = (startsWith (c # cs) p \<or> includes_str cs p)"

text \<open>\<open>xs.slice(0, end)\<close> for an integral \<open>end\<close>: a negative end counts from the
  back.\<close>

definition slice0 :: "'a list \<Rightarrow> int \<Rightarrow> 'a list" where
  "slice0 xs e =
     (let n = int (length xs);
          k = (if e < 0 then max (n + e) 0 else min e n)
      in take (nat k) xs)"

fun decimal :: "nat \<Rightarrow> jsstring" where
  "decimal n = (if n < 10 then [of_nat (48 + n)]
                else decimal (n div 10) @ [of_nat (48 + n mod 10)])"

declare decimal.simps [simp del]

subsection \<open>encodeURIComponent\<close>

text \<open>
  The unreserved characters are copied; every other code point is encoded in UTF-8 and
  each octet written as \<open>%XX\<close>.  A surrogate code unit that is not part of a pair
  makes the function throw a \<open>URIError\<close>.
\<close>

definition uriUnreserved :: "16 word \<Rightarrow> bool" where
  "uriUnreserved c \<longleftrightarrow>
     (0x41 \<le> c \<and> c \<le> 0x5A) \<or> (0x61 \<le> c \<and> c \<le> 0x7A) \<or> (0x30 \<le> c \<and> c \<le> 0x39) \<or>
     c = 0x2D \<or> c = 0x5F \<or> c = 0x2E \<or> c = 0x21 \<or> c = 0x7E \<or> c = 0x2A \<or>
     c = 0x27 \<or> c = 0x28 \<or> c = 0x29"

definition hexDigit :: "nat \<Rightarrow> 16 word" where
  "hexDigit d = (if d < 10 then of_nat (48 + d) else of_nat (55 + d))"

definition percent :: "nat \<Rightarrow> jsstring" where
  "percent octet = [0x25, hexDigit (octet div 16), hexDigit (octet mod 16)]"

definition utf8 :: "nat \<Rightarrow> nat list" where
  "utf8 cp =
     (if cp < 0x80 then [cp]
      else if cp < 0x800 then [0xC0 + cp div 64, 0x80 + cp mod 64]
      else if cp < 0x10000 then
        [0xE0 + cp div 4096, 0x80 + (cp div 64) mod 64, 0x80 + cp mod 64]
      else [0xF0 + cp div 262144, 0x80 + (cp div 4096) mod 64,
            0x80 + (cp div 64) mod 64, 0x80 + cp mod 64])"

definition escapeCodePoint :: "nat \<Rightarrow> jsstring" where
  "escapeCodePoint cp = concat (map percent (utf8 cp))"

definition isLeadSurrogate :: "16 word \<Rightarrow> bool" where
  "isLeadSurrogate c \<longleftrightarrow> 0xD800 \<le> c \<and> c \<le> 0xDBFF"

definition isTrailSurrogate :: "16 word \<Rightarrow> bool" where
  "isTrailSurrogate c \<longleftrightarrow> 0xDC00 \<le> c \<and> c \<le> 0xDFFF"

fun encodeURIComponent :: "jsstring \<Rightarrow> thrown + jsstring" where
  "encodeURIComponent [] = Inr []"
| "encodeURIComponent [c] =
     (if uriUnreserved c then Inr [c]
      else if isLeadSurrogate c \<or> isTrailSurrogate c then Inl URIError
      else Inr (escapeCodePoint (unat c)))"
| "encodeURIComponent (c # d # ds) =
     (if uriUnreserved c then
        (case encodeURIComponent (d # ds) of
           Inl e \<Rightarrow> Inl e
         | Inr r \<Rightarrow> Inr (c # r))
      else if isTrailSurrogate c then Inl URIError
      else if isLeadSurrogate c then
        (if isTrailSurrogate d then
           (case encodeURIComponent ds of
              Inl e \<Rightarrow> Inl e
            | Inr r \<Rightarrow>
                Inr (escapeCodePoint
                       ((unat c - 0xD800) * 0x400 + (unat d - 0xDC00) + 0x10000) @ r))
         else Inl URIError)
      else
        (case encodeURIComponent (d # ds) of
           Inl e \<Rightarrow> Inl e
         | Inr r \<Rightarrow> Inr (escapeCodePoint (unat c) @ r)))"

section \<open>The types of \<open>lib/types.ts\<close>\<close>

datatype SummaryLength = short | medium | detailed

datatype AIProvider = gemini | groq | ollama

record BriefingSource =
  title :: jsvalue
  url :: jsvalue
  snippet :: jsvalue

record BriefingItem =
  interest :: jsstring
  summary :: jsstring
  sources :: "BriefingSource list"
  tweets :: "jsstring list"
  error :: "jsstring option"

record GenerateBriefingResponse =
  briefings :: "BriefingItem list"
  errors :: "jsstring list"

text \<open>A \<open>TrendingTopic\<close> object \<open>{ title, description }\<close>, as a value.\<close>

definition TrendingTopic :: "jsstring \<Rightarrow> jsstring \<Rightarrow> jsvalue" where
  "TrendingTopic t d = JObject [(str ''title'', JString t), (str ''description'', JString d)]"

section \<open>The outside world\<close>

text \<open>
  The three backends, the Wikipedia endpoint, \<open>JSON.parse\<close>, \<open>toLowerCase\<close> and the
  \<open>marked\<close> renderer are not code of the repository.  They are parameters of the model:
  every theorem below holds for whatever they answer.  A prompt is determined by the
  arguments it is built from, so a backend's answer is taken as a function of those.
\<close>

datatype prompt =
    SummaryPrompt jsstring SummaryLength
  | TweetPrompt jsstring
  | TrendingPrompt

text \<open>What \<open>fetch\<close> followed by \<open>response.json()\<close> does: \<open>fetch\<close> rejects, or there
  is a response with its \<open>ok\<close> flag and the outcome of reading its body as JSON.\<close>

datatype fetch_result =
    FetchRejects thrown
  | FetchResponse bool "thrown + jsvalue"

record env =
  JSON_parse :: "jsstring \<Rightarrow> jsvalue option"
  toLowerCase :: "jsstring \<Rightarrow> jsstring"
  marked :: "jsstring \<Rightarrow> thrown + jsstring"
  gemini_generateContent :: "prompt \<Rightarrow> thrown + jsstring"
  groq_chat_completions :: "jsstring \<Rightarrow> prompt \<Rightarrow> thrown + jsstring option"
  ollama_generate :: "jsstring \<Rightarrow> prompt \<Rightarrow> thrown + jsstring option"
  groq_models_list :: "thrown + jsstring option list option"
  fetch :: "jsstring \<Rightarrow> int \<Rightarrow> fetch_result"

text \<open>The requests sent over the network, in the order they are sent.\<close>

datatype call =
    GeminiGenerate prompt
  | GroqChat jsstring prompt
  | OllamaGenerate jsstring prompt
  | GroqModelsList
  | WikipediaSearch jsstring int

text \<open>
  The mutable state of \<open>lib/ai_providers.ts\<close>: the clients made from the environment
  variables when the module loads, the \<open>selectedModel\<close> field of the Groq and Ollama
  provider objects, and the module-level \<open>providerState\<close>.  The log of network calls is
  carried along with it.
\<close>

record ProviderState =
  models :: "jsstring list"
  selectedModel :: "jsstring option"

record world =
  gemini_client :: bool
  groq_client :: bool
  groq_selectedModel :: "jsstring option"
  ollama_selectedModel :: "jsstring option"
  providerState_groq :: ProviderState
  providerState_ollama :: ProviderState
  calls :: "call list"

definition send :: "call \<Rightarrow> world \<Rightarrow> world" where
  "send c w = w\<lparr>calls := calls w @ [c]\<rparr>"

section \<open>\<open>lib/markdown.ts\<close> and \<open>lib/search.ts\<close>\<close>

text \<open>\<open>renderMarkdown\<close> returns what \<open>marked\<close> makes of the text without its script
  tags, and the text itself when that throws.  The \<open>marked\<close> of the model stands for
  the removal of the script tags followed by the renderer.\<close>

definition renderMarkdown :: "env \<Rightarrow> jsstring \<Rightarrow> jsstring" where
  "renderMarkdown E markdown =
     (case marked E markdown of
        Inl e \<Rightarrow> markdown
      | Inr html \<Rightarrow> html)"

text \<open>\<open>xs[index]\<close> on a value: \<open>undefined\<close> and \<open>null\<close> throw a \<open>TypeError\<close>.\<close>

fun element_at :: "jsvalue \<Rightarrow> nat \<Rightarrow> thrown + jsvalue" where
  "element_at JUndefined i = Inl TypeError"
| "element_at JNull i = Inl TypeError"
| "element_at (JBool b) i = Inr JUndefined"
| "element_at (JNumber n) i = Inr JUndefined"
| "element_at (JString s) i = Inr (if i < length s then JString [s ! i] else JUndefined)"
| "element_at (JArray xs) i = Inr (if i < length xs then xs ! i else JUndefined)"
| "element_at (JObject kvs) i =
     Inr (case map_of kvs (decimal i) of None \<Rightarrow> JUndefined | Some v \<Rightarrow> v)"

text \<open>The callback of \<open>titles.map\<close> in \<open>searchWeb\<close>, applied from index \<open>index\<close> on.\<close>

fun map_titles :: "jsvalue list \<Rightarrow> nat \<Rightarrow> jsvalue \<Rightarrow> jsvalue \<Rightarrow> thrown + BriefingSource list" where
  "map_titles [] index descriptions urls = Inr []"
| "map_titles (t # ts) index descriptions urls =
     (case element_at urls index of
        Inl e \<Rightarrow> Inl e
      | Inr u \<Rightarrow>
          (case element_at descriptions index of
             Inl e \<Rightarrow> Inl e
           | Inr d \<Rightarrow>
               (case map_titles ts (Suc index) descriptions urls of
                  Inl e \<Rightarrow> Inl e
                | Inr rest \<Rightarrow>
                    Inr (\<lparr>title = t, url = u,
                          snippet = (if truthy d then d
                                     else JString (str ''No description available''))\<rparr>
                         # rest))))"

text \<open>
  The body of the \<open>try\<close> after the response has been read: the array destructuring
  \<open>[term, titles, descriptions, urls]\<close>, then \<open>titles.map(...).slice(0, maxResults)\<close>.
  Only an array can be destructured into an array of titles: a string gives strings, on
  which \<open>map\<close> is not a function, and the other values are not iterable.
\<close>

definition sources_of_body :: "jsvalue \<Rightarrow> int \<Rightarrow> thrown + BriefingSource list" where
  "sources_of_body body maxResults =
     (case body of
        JArray xs \<Rightarrow>
          (case (if 1 < length xs then xs ! 1 else JUndefined) of
             JArray titles \<Rightarrow>
               (case map_titles titles 0
                       (if 2 < length xs then xs ! 2 else JUndefined)
                       (if 3 < length xs then xs ! 3 else JUndefined) of
                  Inl e \<Rightarrow> Inl e
                | Inr srcs \<Rightarrow> Inr (slice0 srcs maxResults))
           | _ \<Rightarrow> Inl TypeError)
      | _ \<Rightarrow> Inl TypeError)"

text \<open>The \<open>catch\<close> block of \<open>searchWeb\<close>; it encodes the query a second time.\<close>

definition searchWeb_catch :: "jsstring \<Rightarrow> thrown + BriefingSource list" where
  "searchWeb_catch query =
     (case encodeURIComponent query of
        Inl e \<Rightarrow> Inl e
      | Inr q \<Rightarrow>
          Inr [\<lparr>title = JString (str ''Search Results Unavailable''),
                url = JString (str ''https://www.google.com/search?q='' @ q),
                snippet = JString (str ''Could not fetch real-time sources. Click to search Google.'')\<rparr>])"

definition searchWeb :: "env \<Rightarrow> jsstring \<Rightarrow> int \<Rightarrow> world \<Rightarrow> (thrown + BriefingSource list) \<times> world" where
  "searchWeb E query maxResults w =
     (case encodeURIComponent query of
        Inl e \<Rightarrow> (searchWeb_catch query, w)
      | Inr searchQuery \<Rightarrow>
          (let w1 = send (WikipediaSearch searchQuery maxResults) w in
           case fetch E searchQuery maxResults of
             FetchRejects e \<Rightarrow> (searchWeb_catch query, w1)
           | FetchResponse ok body \<Rightarrow>
               if \<not> ok then (searchWeb_catch query, w1)
               else
                 (case body of
                    Inl e \<Rightarrow> (searchWeb_catch query, w1)
                  | Inr v \<Rightarrow>
                      (case sources_of_body v maxResults of
                         Inl e \<Rightarrow> (searchWeb_catch query, w1)
                       | Inr srcs \<Rightarrow> (Inr srcs, w1)))))"

section \<open>\<open>lib/ai_providers.ts\<close>: the provider classes\<close>

subsection \<open>Social posts from the backend's text\<close>

definition placeholder_tweets :: "jsstring list" where
  "placeholder_tweets =
     [[0xF0, 0x178, 0x161, 0x20AC] @
        str '' Just witnessed another groundbreaking development in tech! The innovation cycle keeps accelerating with new breakthroughs emerging daily. What'' @ [0x27] @
        str ''s next on the horizon? The pace of technological advancement shows no signs of slowing down.'',
      [0xF0, 0x178, 0x201C, 0x2C6] @
        str '' Markets are showing strong reactions to the latest industry developments. Companies are pivoting faster than ever to maintain their competitive edge in this dynamic environment. Strategic adaptation is becoming the key to survival.'',
      [0xF0, 0x178, 0x152, 0x178] @
        str '' The technological landscape continues to evolve at breakneck speed. From cutting-edge AI to revolutionary discoveries, we'' @ [0x27] @
        str ''re experiencing unprecedented innovation. The future of technology is unfolding before our eyes.'']"

text \<open>
  The three \<open>generateTweets\<close> methods end with the same expression:
  split into lines, trim, keep the lines longer than 10 that are no code fence and do
  not contain \<open>tweet\<close>, cut at 270, take the first three, and substitute the
  placeholders when nothing is left.
\<close>

definition tweets_of_content :: "jsstring \<Rightarrow> jsstring list" where
  "tweets_of_content content =
     (let tweets =
        take 3
          (map (\<lambda>tweet. if length tweet > 270 then take 267 tweet @ str ''...'' else tweet)
             (filter (\<lambda>line. length line > 10 \<and> \<not> startsWith line (str ''```'')
                              \<and> \<not> includes_str line (str ''tweet''))
                (map trim (split_lines content))))
      in if length tweets > 0 then tweets else placeholder_tweets)"

subsection \<open>Trending topics from the backend's text\<close>

text \<open>\<open>parsed.topics\<close>: reading a property of \<open>null\<close> throws; a JSON object has the
  property when it has the key (the keys of a parsed object are distinct).\<close>

fun get_topics :: "jsvalue \<Rightarrow> thrown + jsvalue" where
  "get_topics JUndefined = Inl TypeError"
| "get_topics JNull = Inl TypeError"
| "get_topics (JObject kvs) =
     Inr (case map_of kvs (str ''topics'') of None \<Rightarrow> JUndefined | Some v \<Rightarrow> v)"
| "get_topics v = Inr JUndefined"

text \<open>The \<open>try\<close>/\<open>catch\<close> shared by the Gemini and the Ollama provider:
  \<open>return parsed.topics || []\<close>, and the fixed list when anything throws.\<close>

definition topics_or_fallback :: "env \<Rightarrow> jsstring \<Rightarrow> jsvalue \<Rightarrow> jsvalue" where
  "topics_or_fallback E content fallback =
     (case JSON_parse E content of
        None \<Rightarrow> fallback
      | Some parsed \<Rightarrow>
          (case get_topics parsed of
             Inl e \<Rightarrow> fallback
           | Inr topics \<Rightarrow> if truthy topics then topics else JArray []))"

definition isDigit :: "16 word \<Rightarrow> bool" where
  "isDigit c \<longleftrightarrow> 0x30 \<le> c \<and> c \<le> 0x39"

text \<open>\<open>.replace(/^\d+\.\s*/, '')\<close>\<close>

definition strip_numbering :: "jsstring \<Rightarrow> jsstring" where
  "strip_numbering s =
     (let rest = dropWhile isDigit s in
      if takeWhile isDigit s \<noteq> [] \<and> startsWith rest [0x2E]
      then dropWhile isWhiteSpace (tl rest)
      else s)"

definition isLineTerminator :: "16 word \<Rightarrow> bool" where
  "isLineTerminator c \<longleftrightarrow> c = 0x0A \<or> c = 0x0D \<or> c = 0x2028 \<or> c = 0x2029"

text \<open>The lazy \<open>(.*?)\*\*\<close> after an opening \<open>**\<close>: the text up to the next \<open>**\<close>
  on the same line, and what follows it.\<close>

fun bold_close :: "jsstring \<Rightarrow> (jsstring \<times> jsstring) option" where
  "bold_close [] = None"
| "bold_close [c] = None"
| "bold_close (c # d # ds) =
     (if c = 0x2A \<and> d = 0x2A then Some ([], ds)
      else if isLineTerminator c then None
      else (case bold_close (d # ds) of
              None \<Rightarrow> None
            | Some (inner, rest) \<Rightarrow> Some (c # inner, rest)))"

lemma bold_close_shorter [termination_simp]:
  "bold_close s = Some (inner, rest) \<Longrightarrow> length rest < length s"
  by (induction s arbitrary: inner rest rule: bold_close.induct)
     (auto split: if_splits option.splits)

text \<open>\<open>.replace(/\*\*(.*?)\*\*/g, '$1')\<close>\<close>

fun unbold :: "jsstring \<Rightarrow> jsstring" where
  "unbold [] = []"
| "unbold [c] = [c]"
| "unbold (c # d # ds) =
     (if c = 0x2A \<and> d = 0x2A then
        (case bold_close ds of
           None \<Rightarrow> c # unbold (d # ds)
         | Some (inner, rest) \<Rightarrow> inner @ unbold rest)
      else c # unbold (d # ds))"

text \<open>\<open>s.indexOf(':')\<close>, when there is one.\<close>

fun indexOf_colon :: "jsstring \<Rightarrow> nat option" where
  "indexOf_colon [] = None"
| "indexOf_colon (c # cs) =
     (if c = 0x3A then Some 0 else map_option Suc (indexOf_colon cs))"

text \<open>The body of the \<open>for\<close> loop of \<open>GroqProvider.getTrendingTopics\<close>.\<close>

definition topic_of_line :: "env \<Rightarrow> jsstring \<Rightarrow> jsvalue" where
  "topic_of_line E l =
     (let line = trim l;
          cleanLine = trim (unbold (strip_numbering line))
      in case indexOf_colon cleanLine of
           Some colonIndex \<Rightarrow>
             if colonIndex > 0
             then TrendingTopic (trim (take colonIndex cleanLine))
                                (trim (drop (colonIndex + 1) cleanLine))
             else TrendingTopic cleanLine
                    (str ''Recent developments in '' @ toLowerCase E cleanLine)
         | None \<Rightarrow>
             TrendingTopic cleanLine
               (str ''Recent developments in '' @ toLowerCase E cleanLine))"

definition groq_fallback_topics :: "jsvalue list" where
  "groq_fallback_topics =
     [TrendingTopic (str ''Technology Updates'') (str ''Latest tech developments and innovations''),
      TrendingTopic (str ''Global Politics'') (str ''Recent political developments worldwide''),
      TrendingTopic (str ''Economic News'') (str ''Financial market updates and economic trends'')]"

text \<open>\<open>GroqProvider.getTrendingTopics\<close> from the received text on: a non-empty
  \<open>topics\<close> array of the parsed JSON cut to three, else the lines longer than 10, else
  the fixed list.\<close>

definition groq_text_topics :: "env \<Rightarrow> jsstring \<Rightarrow> jsvalue list" where
  "groq_text_topics E content =
     (let lines = filter (\<lambda>line. length (trim line) > 10) (split_lines content);
          topics = map (topic_of_line E) (take (min (length lines) 3) lines)
      in if length topics = 0 then groq_fallback_topics else take 3 topics)"

definition groq_topics_of_content :: "env \<Rightarrow> jsstring \<Rightarrow> jsvalue list" where
  "groq_topics_of_content E content =
     (case JSON_parse E content of
        None \<Rightarrow> groq_text_topics E content
      | Some parsed \<Rightarrow>
          (case get_topics parsed of
             Inl e \<Rightarrow> groq_text_topics E content
           | Inr (JArray topics) \<Rightarrow>
               if length topics > 0 then take 3 topics else groq_text_topics E content
           | Inr v \<Rightarrow> groq_text_topics E content))"

subsection \<open>\<open>GeminiProvider\<close>\<close>

type_synonym 'a io = "world \<Rightarrow> (thrown + 'a) \<times> world"

definition GeminiProvider_generateSummary ::
  "env \<Rightarrow> jsstring \<Rightarrow> SummaryLength \<Rightarrow> (jsstring \<times> BriefingSource list) io" where
  "GeminiProvider_generateSummary E interest summaryLength w =
     (if \<not> gemini_client w then (Inl (Error (str ''Gemini API key not configured'')), w)
      else
        (let prompt = SummaryPrompt interest summaryLength;
             w1 = send (GeminiGenerate prompt) w
         in case gemini_generateContent E prompt of
              Inl e \<Rightarrow> (Inl e, w1)
            | Inr text \<Rightarrow> (Inr (renderMarkdown E text, []), w1)))"
  for interest

definition GeminiProvider_generateTweets :: "env \<Rightarrow> jsstring \<Rightarrow> (jsstring list) io" where
  "GeminiProvider_generateTweets E summary w =
     (if \<not> gemini_client w then (Inl (Error (str ''Gemini API key not configured'')), w)
      else
        (let prompt = TweetPrompt summary;
             w1 = send (GeminiGenerate prompt) w
         in case gemini_generateContent E prompt of
              Inl e \<Rightarrow> (Inl e, w1)
            | Inr content \<Rightarrow> (Inr (tweets_of_content content), w1)))"
  for summary

definition gemini_fallback_topics :: jsvalue where
  "gemini_fallback_topics =
     JArray [TrendingTopic (str ''Technology Updates'') (str ''Latest tech developments''),
             TrendingTopic (str ''Global Politics'') (str ''Recent political developments''),
             TrendingTopic (str ''Economic News'') (str ''Financial market updates'')]"

definition GeminiProvider_getTrendingTopics :: "env \<Rightarrow> jsvalue io" where
  "GeminiProvider_getTrendingTopics E w =
     (if \<not> gemini_client w then (Inl (Error (str ''Gemini API key not configured'')), w)
      else
        (let w1 = send (GeminiGenerate TrendingPrompt) w
         in case gemini_generateContent E TrendingPrompt of
              Inl e \<Rightarrow> (Inl e, w1)
            | Inr content \<Rightarrow> (Inr (topics_or_fallback E content gemini_fallback_topics), w1)))"

subsection \<open>\<open>GroqProvider\<close>\<close>

definition GroqProvider_generateSummary ::
  "env \<Rightarrow> jsstring \<Rightarrow> SummaryLength \<Rightarrow> (jsstring \<times> BriefingSource list) io" where
  "GroqProvider_generateSummary E interest summaryLength w =
     (if \<not> groq_client w then (Inl (Error (str ''Groq API key not configured'')), w)
      else if falsy_string (groq_selectedModel w)
      then (Inl (Error (str ''No Groq model selected. Please select a model first.'')), w)
      else
        (let prompt = SummaryPrompt interest summaryLength;
             model = or_empty (groq_selectedModel w);
             w1 = send (GroqChat model prompt) w
         in case groq_chat_completions E model prompt of
              Inl e \<Rightarrow> (Inl e, w1)
            | Inr c \<Rightarrow>
                (let content = or_empty c in
                 case searchWeb E interest 5 w1 of
                   (Inl e, w2) \<Rightarrow> (Inl e, w2)
                 | (Inr sources, w2) \<Rightarrow> (Inr (renderMarkdown E content, sources), w2))))"
  for interest sources

definition GroqProvider_generateTweets :: "env \<Rightarrow> jsstring \<Rightarrow> (jsstring list) io" where
  "GroqProvider_generateTweets E summary w =
     (if \<not> groq_client w then (Inl (Error (str ''Groq API key not configured'')), w)
      else if falsy_string (groq_selectedModel w)
      then (Inl (Error (str ''No Groq model selected. Please select a model first.'')), w)
      else
        (let prompt = TweetPrompt summary;
             model = or_empty (groq_selectedModel w);
             w1 = send (GroqChat model prompt) w
         in case groq_chat_completions E model prompt of
              Inl e \<Rightarrow> (Inl e, w1)
            | Inr c \<Rightarrow> (Inr (tweets_of_content (or_empty c)), w1)))"
  for summary

definition GroqProvider_getTrendingTopics :: "env \<Rightarrow> jsvalue io" where
  "GroqProvider_getTrendingTopics E w =
     (if \<not> groq_client w then (Inl (Error (str ''Groq API key not configured'')), w)
      else if falsy_string (groq_selectedModel w)
      then (Inl (Error (str ''No Groq model selected. Please select a model first.'')), w)
      else
        (let model = or_empty (groq_selectedModel w);
             w1 = send (GroqChat model TrendingPrompt) w
         in case groq_chat_completions E model TrendingPrompt of
              Inl e \<Rightarrow> (Inl e, w1)
            | Inr c \<Rightarrow> (Inr (JArray (groq_topics_of_content E (or_empty c))), w1)))"

subsection \<open>\<open>OllamaProvider\<close>\<close>

definition OllamaProvider_generateSummary ::
  "env \<Rightarrow> jsstring \<Rightarrow> SummaryLength \<Rightarrow> (jsstring \<times> BriefingSource list) io" where
  "OllamaProvider_generateSummary E interest summaryLength w =
     (if falsy_string (ollama_selectedModel w)
      then (Inl (Error (str ''No Ollama model selected'')), w)
      else
        (let prompt = SummaryPrompt interest summaryLength;
             model = or_empty (ollama_selectedModel w);
             w1 = send (OllamaGenerate model prompt) w
         in case ollama_generate E model prompt of
              Inl e \<Rightarrow> (Inl e, w1)
            | Inr r \<Rightarrow>
                (let content = or_empty r in
                 case searchWeb E interest 5 w1 of
                   (Inl e, w2) \<Rightarrow> (Inl e, w2)
                 | (Inr sources, w2) \<Rightarrow> (Inr (renderMarkdown E content, sources), w2))))"
  for interest sources

definition OllamaProvider_generateTweets :: "env \<Rightarrow> jsstring \<Rightarrow> (jsstring list) io" where
  "OllamaProvider_generateTweets E summary w =
     (if falsy_string (ollama_selectedModel w)
      then (Inl (Error (str ''No Ollama model selected'')), w)
      else
        (let prompt = TweetPrompt summary;
             model = or_empty (ollama_selectedModel w);
             w1 = send (OllamaGenerate model prompt) w
         in case ollama_generate E model prompt of
              Inl e \<Rightarrow> (Inl e, w1)
            | Inr r \<Rightarrow> (Inr (tweets_of_content (or_empty r)), w1)))"
  for summary

definition ollama_fallback_topics :: jsvalue where
  "ollama_fallback_topics =
     JArray [TrendingTopic (str ''AI Development'') (str ''Latest AI advancements''),
             TrendingTopic (str ''Tech Innovation'') (str ''New technology releases''),
             TrendingTopic (str ''Market Updates'') (str ''Financial developments'')]"

definition OllamaProvider_getTrendingTopics :: "env \<Rightarrow> jsvalue io" where
  "OllamaProvider_getTrendingTopics E w =
     (if falsy_string (ollama_selectedModel w)
      then (Inl (Error (str ''No Ollama model selected'')), w)
      else
        (let model = or_empty (ollama_selectedModel w);
             w1 = send (OllamaGenerate model TrendingPrompt) w
         in case ollama_generate E model TrendingPrompt of
              Inl e \<Rightarrow> (Inl e, w1)
            | Inr r \<Rightarrow>
                (Inr (topics_or_fallback E (or_empty r) ollama_fallback_topics), w1)))"

subsection \<open>\<open>isAvailable\<close> and \<open>getName\<close>\<close>

fun isAvailable :: "AIProvider \<Rightarrow> world \<Rightarrow> bool" where
  "isAvailable gemini w = gemini_client w"
| "isAvailable groq w = groq_client w"
| "isAvailable ollama w = True"

fun getName :: "AIProvider \<Rightarrow> jsstring" where
  "getName gemini = str ''Google Gemini''"
| "getName groq = str ''Groq''"
| "getName ollama = str ''Ollama (Local)''"

section \<open>\<open>lib/ai_providers.ts\<close>: models, availability, the manager\<close>

text \<open>\<open>listOllamaModels\<close> stores a fixed list of three names and selects the first;
  nothing in its \<open>try\<close> block can throw, and it sends no request.\<close>

definition listOllamaModels :: "world \<Rightarrow> jsstring list \<times> world" where
  "listOllamaModels w =
     (let ms = [str ''llama2'', str ''llama2:13b'', str ''codellama''];
          w1 = w\<lparr>providerState_ollama :=
                   \<lparr>models = ms,
                    selectedModel = (case ms of [] \<Rightarrow> None
                                     | m # _ \<Rightarrow> if m = [] then None else Some m)\<rparr>\<rparr>
      in (ms, w1))"

definition setSelectedOllamaModel :: "jsstring \<Rightarrow> world \<Rightarrow> world" where
  "setSelectedOllamaModel model w =
     (if model \<in> set (models (providerState_ollama w))
      then w\<lparr>providerState_ollama := (providerState_ollama w)\<lparr>selectedModel := Some model\<rparr>,
             ollama_selectedModel := Some model\<rparr>
      else w)"

definition getSelectedOllamaModel :: "world \<Rightarrow> jsstring option" where
  "getSelectedOllamaModel w = selectedModel (providerState_ollama w)"

text \<open>\<open>listGroqModels\<close>: without a client the outer \<open>catch\<close> stores and returns the
  empty list; when the listing call throws, the inner \<open>catch\<close> stores and returns three
  fixed names; otherwise the non-empty ids of the answer, sorted.\<close>

definition listGroqModels :: "env \<Rightarrow> world \<Rightarrow> jsstring list \<times> world" where
  "listGroqModels E w =
     (if \<not> isAvailable groq w
      then ([], w\<lparr>providerState_groq := (providerState_groq w)\<lparr>models := []\<rparr>\<rparr>)
      else
        (let w1 = send GroqModelsList w in
         case groq_models_list E of
           Inl sdkError \<Rightarrow>
             (let fallbackModels =
                    [str ''llama3-8b-8192'', str ''llama3-70b-8192'', str ''mixtral-8x7b-32768'']
              in (fallbackModels,
                  w1\<lparr>providerState_groq := (providerState_groq w1)\<lparr>models := fallbackModels\<rparr>\<rparr>))
         | Inr data \<Rightarrow>
             (let allModels =
                    sort (map or_empty
                            (filter (\<lambda>id. \<not> falsy_string id)
                               (case data of None \<Rightarrow> [] | Some ms \<Rightarrow> ms)))
              in (allModels,
                  w1\<lparr>providerState_groq := (providerState_groq w1)\<lparr>models := allModels\<rparr>\<rparr>))))"

definition setSelectedGroqModel :: "jsstring \<Rightarrow> world \<Rightarrow> world" where
  "setSelectedGroqModel model w =
     (if model \<in> set (models (providerState_groq w))
      then w\<lparr>providerState_groq := (providerState_groq w)\<lparr>selectedModel := Some model\<rparr>,
             groq_selectedModel := Some model\<rparr>
      else w)"

definition getSelectedGroqModel :: "world \<Rightarrow> jsstring option" where
  "getSelectedGroqModel w = selectedModel (providerState_groq w)"

definition GEMINI_MODEL :: jsstring where
  "GEMINI_MODEL = str ''gemini-2.5-flash''"

fun getAvailableModels :: "env \<Rightarrow> AIProvider \<Rightarrow> world \<Rightarrow> jsstring list \<times> world" where
  "getAvailableModels E ollama w = listOllamaModels w"
| "getAvailableModels E groq w = listGroqModels E w"
| "getAvailableModels E gemini w = ([GEMINI_MODEL], w)"

definition getAvailableProviders :: "world \<Rightarrow> AIProvider list \<times> world" where
  "getAvailableProviders w =
     (let available = [];
          available = (if isAvailable gemini w then available @ [gemini] else available);
          available = (if isAvailable groq w then available @ [groq] else available)
      in case listOllamaModels w of
           (ms, w1) \<Rightarrow>
             (if length ms > 0 then available @ [ollama] else available, w1))"

text \<open>The block at the start of each manager method: the model selected in
  \<open>providerState\<close>, if there is one, is copied into the provider object.\<close>

definition copySelectedModel :: "AIProvider \<Rightarrow> world \<Rightarrow> world" where
  "copySelectedModel provider w =
     (if provider = groq \<and> \<not> falsy_string (selectedModel (providerState_groq w))
      then w\<lparr>groq_selectedModel := selectedModel (providerState_groq w)\<rparr>
      else if provider = ollama \<and> \<not> falsy_string (selectedModel (providerState_ollama w))
      then w\<lparr>ollama_selectedModel := selectedModel (providerState_ollama w)\<rparr>
      else w)"

definition AIProviderManager_generateSummary ::
  "env \<Rightarrow> AIProvider \<Rightarrow> jsstring \<Rightarrow> SummaryLength \<Rightarrow> (jsstring \<times> BriefingSource list) io" where
  "AIProviderManager_generateSummary E provider interest summaryLength w =
     (if \<not> isAvailable provider w
      then (Inl (Error (getName provider @ str '' is not available'')), w)
      else
        (let w1 = copySelectedModel provider w in
         case provider of
           gemini \<Rightarrow> GeminiProvider_generateSummary E interest summaryLength w1
         | groq \<Rightarrow> GroqProvider_generateSummary E interest summaryLength w1
         | ollama \<Rightarrow> OllamaProvider_generateSummary E interest summaryLength w1))"
  for interest

definition AIProviderManager_generateTweets ::
  "env \<Rightarrow> AIProvider \<Rightarrow> jsstring \<Rightarrow> (jsstring list) io" where
  "AIProviderManager_generateTweets E provider summary w =
     (if \<not> isAvailable provider w
      then (Inl (Error (getName provider @ str '' is not available'')), w)
      else
        (let w1 = copySelectedModel provider w in
         case provider of
           gemini \<Rightarrow> GeminiProvider_generateTweets E summary w1
         | groq \<Rightarrow> GroqProvider_generateTweets E summary w1
         | ollama \<Rightarrow> OllamaProvider_generateTweets E summary w1))"
  for summary

definition AIProviderManager_getTrendingTopics :: "env \<Rightarrow> AIProvider \<Rightarrow> jsvalue io" where
  "AIProviderManager_getTrendingTopics E provider w =
     (if \<not> isAvailable provider w
      then (Inl (Error (getName provider @ str '' is not available'')), w)
      else
        (let w1 = copySelectedModel provider w in
         case provider of
           gemini \<Rightarrow> GeminiProvider_getTrendingTopics E w1
         | groq \<Rightarrow> GroqProvider_getTrendingTopics E w1
         | ollama \<Rightarrow> OllamaProvider_getTrendingTopics E w1))"

section \<open>\<open>app/actions.ts\<close>: the orchestrator\<close>

text \<open>
  The actions call three functions imported from \<open>lib/ai_providers\<close>.  They are modelled
  against that interface, over any state \<open>'s\<close>; \<open>ai_providers\<close> is the
  implementation above.  The pipelines of one call are started in the order of the
  topics and share the state; the model runs them one after the other in that order.

  In the running program the pipelines interleave: every pipeline sends its request for
  the summary before any answer arrives, and the later requests go out as the answers
  come in.  So the order of the log across the pipelines of one run is the model's, not
  the program's; within one pipeline it is the program's.  The outcomes do not depend
  on the order: with \<open>ai_providers\<close> each pipeline of a run returns what it returns
  when it runs alone from the state the availability check left
  (\<open>allSettled_ai_providers\<close> below), so nothing stated about the briefings and the
  error messages depends on it.
\<close>

record 's providers =
  lib_getAvailableProviders :: "'s \<Rightarrow> AIProvider list \<times> 's"
  lib_generateSummary ::
    "AIProvider \<Rightarrow> jsstring \<Rightarrow> SummaryLength \<Rightarrow> 's
       \<Rightarrow> (thrown + jsstring \<times> BriefingSource list) \<times> 's"
  lib_generateTweets :: "AIProvider \<Rightarrow> jsstring \<Rightarrow> 's \<Rightarrow> (thrown + jsstring list) \<times> 's"

definition ai_providers :: "env \<Rightarrow> world providers" where
  "ai_providers E =
     \<lparr>lib_getAvailableProviders = getAvailableProviders,
      lib_generateSummary = AIProviderManager_generateSummary E,
      lib_generateTweets = AIProviderManager_generateTweets E\<rparr>"

text \<open>\<open>error instanceof Error ? error.message : 'Unknown error occurred'\<close>\<close>

fun message_or_unknown :: "thrown \<Rightarrow> jsstring" where
  "message_or_unknown (Error m) = m"
| "message_or_unknown (NonError v) = str ''Unknown error occurred''"

text \<open>The posts substituted when the call for the posts throws.\<close>

definition fallback_tweets :: "jsstring \<Rightarrow> jsstring list" where
  "fallback_tweets topic =
     [str ''Breaking: New developments in '' @ topic @ str ''! '' @ [0xF0, 0x178, 0x161, 0x20AC],
      str ''Stay informed about the latest '' @ topic @ str '' updates. Knowledge is power! ''
        @ [0xF0, 0x178, 0x2019, 0xA1],
      str ''Another day, another '' @ topic @ str '' breakthrough. The future is now! ''
        @ [0xE2, 0x161, 0xA1]]"

definition generateSingleBriefingForInterest ::
  "'s providers \<Rightarrow> jsstring \<Rightarrow> SummaryLength \<Rightarrow> AIProvider \<Rightarrow> 's \<Rightarrow> (thrown + BriefingItem) \<times> 's" where
  "generateSingleBriefingForInterest L interest summaryLength provider s =
     (case lib_generateSummary L provider interest summaryLength s of
        (Inl e, s1) \<Rightarrow> (Inl (Error (message_or_unknown e)), s1)
      | (Inr (summary, sources), s1) \<Rightarrow>
          if summary = []
          then (Inl (Error (message_or_unknown (Error (str ''Empty summary generated'')))), s1)
          else
            (case (case lib_generateTweets L provider summary s1 of
                     (Inl tweetError, s2) \<Rightarrow> (fallback_tweets interest, s2)
                   | (Inr ts, s2) \<Rightarrow> (ts, s2)) of
               (tweets, s2) \<Rightarrow>
                 (Inr \<lparr>interest = interest, summary = trim summary, sources = sources,
                       tweets = take 3 tweets, error = None\<rparr>, s2)))"
  for interest summary sources tweets

text \<open>\<open>Promise.allSettled(interests.map(...))\<close>: one outcome per topic, in order.\<close>

fun allSettled ::
  "'s providers \<Rightarrow> jsstring list \<Rightarrow> SummaryLength \<Rightarrow> AIProvider \<Rightarrow> 's
     \<Rightarrow> (thrown + BriefingItem) list \<times> 's" where
  "allSettled L [] summaryLength provider s = ([], s)"
| "allSettled L (i # is) summaryLength provider s =
     (case generateSingleBriefingForInterest L i summaryLength provider s of
        (r, s1) \<Rightarrow>
          (case allSettled L is summaryLength provider s1 of
             (rs, s2) \<Rightarrow> (r # rs, s2)))"

text \<open>\<open>reason instanceof Error ? reason.message : String(reason)\<close>\<close>

fun message_or_string :: "thrown \<Rightarrow> jsstring" where
  "message_or_string (Error m) = m"
| "message_or_string (NonError v) = v"

text \<open>\<open>results.forEach((result, index) => ...)\<close> from index \<open>index\<close> on, pushing to
  \<open>briefings\<close> and \<open>errors\<close>.\<close>

fun forEach_result ::
  "jsstring list \<Rightarrow> (thrown + BriefingItem) list \<Rightarrow> nat \<Rightarrow> GenerateBriefingResponse
     \<Rightarrow> GenerateBriefingResponse" where
  "forEach_result interests [] index acc = acc"
| "forEach_result interests (result # results) index acc =
     forEach_result interests results (Suc index)
       (case result of
          Inr v \<Rightarrow> acc\<lparr>briefings := briefings acc @ [v]\<rparr>
        | Inl reason \<Rightarrow>
            (let errorMessage = message_or_string reason in
             acc\<lparr>errors := errors acc @
                     [str ''Failed to generate briefing for '' @ [0x22] @ interests ! index
                        @ [0x22] @ str '': '' @ errorMessage],
                  briefings := briefings acc @
                     [\<lparr>interest = interests ! index,
                       summary = str ''Failed to generate summary due to an error.'',
                       sources = [], tweets = [], error = Some errorMessage\<rparr>]\<rparr>))"

text \<open>\<open>generateBriefing\<close>.  \<open>Promise.allSettled\<close> does not reject and nothing in the
  \<open>forEach\<close> throws (\<open>index\<close> is below the number of topics), so the \<open>catch\<close> after
  them is never entered.\<close>

definition generateBriefing ::
  "'s providers \<Rightarrow> jsstring list \<Rightarrow> SummaryLength \<Rightarrow> AIProvider \<Rightarrow> 's
     \<Rightarrow> GenerateBriefingResponse \<times> 's" where
  "generateBriefing L interests summaryLength provider s =
     (case lib_getAvailableProviders L s of
        (availableProviders, s1) \<Rightarrow>
          (case (if provider \<notin> set availableProviders
                 then (case availableProviders of
                         [] \<Rightarrow> None
                       | p # _ \<Rightarrow> Some p)
                 else Some provider) of
             None \<Rightarrow>
               (\<lparr>briefings = [],
                 errors = [str ''No AI providers available. Please configure at least one provider.'']\<rparr>,
                s1)
           | Some provider' \<Rightarrow>
               (case allSettled L interests summaryLength provider' s1 of
                  (results, s2) \<Rightarrow>
                    (forEach_result interests results 0 \<lparr>briefings = [], errors = []\<rparr>, s2))))"

section \<open>The second module in \<open>lib/ai_providers.ts\<close>\<close>

text \<open>
  The source file holds a second, older module after the first: the same clients and
  \<open>providerState\<close>, no provider objects, and the generation written as static helpers of
  \<open>AIProviderManager\<close> that take the finished prompt.  Its Groq state starts with
  \<open>CONFIG.GROQ_MODEL\<close> selected.
\<close>

record older_world =
  clients_gemini :: bool
  clients_groq :: bool
  older_providerState_groq :: ProviderState
  older_providerState_ollama :: ProviderState
  older_calls :: "call list"

definition GROQ_MODEL :: jsstring where
  "GROQ_MODEL = str ''llama3.2:latest''"

definition older_loaded :: "bool \<Rightarrow> bool \<Rightarrow> older_world" where
  "older_loaded gemini_key groq_key =
     \<lparr>clients_gemini = gemini_key, clients_groq = groq_key,
      older_providerState_groq = \<lparr>models = [], selectedModel = Some GROQ_MODEL\<rparr>,
      older_providerState_ollama = \<lparr>models = [], selectedModel = None\<rparr>,
      older_calls = []\<rparr>"

text \<open>\<open>parsed.tweets\<close>\<close>

fun get_tweets :: "jsvalue \<Rightarrow> thrown + jsvalue" where
  "get_tweets JUndefined = Inl TypeError"
| "get_tweets JNull = Inl TypeError"
| "get_tweets (JObject kvs) =
     Inr (case map_of kvs (str ''tweets'') of None \<Rightarrow> JUndefined | Some v \<Rightarrow> v)"
| "get_tweets v = Inr JUndefined"

text \<open>\<open>.replace(/^"|"$/g, '')\<close>: a double quote at the start and one at the end.\<close>

definition strip_quotes :: "jsstring \<Rightarrow> jsstring" where
  "strip_quotes s =
     (let s1 = (if startsWith s [0x22] then tl s else s)
      in if s1 \<noteq> [] \<and> last s1 = 0x22 then butlast s1 else s1)"

text \<open>The \<open>catch\<close> block of \<open>generateTweetsWithGemini\<close>: the first three lines that
  start with a double quote once trimmed, without their outer quotes.\<close>

definition quoted_lines :: "jsstring \<Rightarrow> jsvalue" where
  "quoted_lines content =
     (let tweets = take 3 (filter (\<lambda>line. startsWith (trim line) [0x22]) (split_lines content))
      in JArray (map (\<lambda>tweet. JString (strip_quotes tweet)) tweets))"

definition generateTweetsWithGemini ::
  "env \<Rightarrow> prompt \<Rightarrow> older_world \<Rightarrow> (thrown + jsvalue) \<times> older_world" where
  "generateTweetsWithGemini E prompt s =
     (if \<not> clients_gemini s then (Inl (Error (str ''Gemini API key not configured'')), s)
      else
        (let s1 = s\<lparr>older_calls := older_calls s @ [GeminiGenerate prompt]\<rparr>
         in case gemini_generateContent E prompt of
              Inl e \<Rightarrow> (Inl e, s1)
            | Inr content \<Rightarrow>
                (Inr (case JSON_parse E content of
                        None \<Rightarrow> quoted_lines content
                      | Some parsed \<Rightarrow>
                          (case get_tweets parsed of
                             Inl e \<Rightarrow> quoted_lines content
                           | Inr tweets \<Rightarrow> if truthy tweets then tweets else JArray [])),
                 s1)))"
  for tweets

definition generateWithGroq ::
  "env \<Rightarrow> prompt \<Rightarrow> older_world \<Rightarrow> (thrown + jsstring \<times> BriefingSource list) \<times> older_world" where
  "generateWithGroq E prompt s =
     (if \<not> clients_groq s then (Inl (Error (str ''Groq API key not configured'')), s)
      else
        (let model = (if falsy_string (selectedModel (older_providerState_groq s))
                      then GROQ_MODEL
                      else or_empty (selectedModel (older_providerState_groq s)));
             s1 = s\<lparr>older_calls := older_calls s @ [GroqChat model prompt]\<rparr>
         in case groq_chat_completions E model prompt of
              Inl e \<Rightarrow> (Inl e, s1)
            | Inr c \<Rightarrow> (Inr (or_empty c, []), s1)))"

section \<open>Scenarios\<close>

text \<open>A world in which no backend can be reached: every request throws.\<close>

definition offline :: env where
  "offline =
     \<lparr>JSON_parse = (\<lambda>text. None),
      toLowerCase = (\<lambda>s. s),
      marked = (\<lambda>markdown. Inr markdown),
      gemini_generateContent = (\<lambda>p. Inl (Error (str ''fetch failed''))),
      groq_chat_completions = (\<lambda>m p. Inl (Error (str ''fetch failed''))),
      ollama_generate = (\<lambda>m p. Inl (Error (str ''fetch failed''))),
      groq_models_list = Inl (Error (str ''fetch failed'')),
      fetch = (\<lambda>q n. FetchRejects (Error (str ''fetch failed'')))\<rparr>"

text \<open>A world in which every generation request is answered with the same text.\<close>

definition answering :: "jsstring \<Rightarrow> env" where
  "answering text =
     offline\<lparr>gemini_generateContent := (\<lambda>p. Inr text),
             groq_chat_completions := (\<lambda>m p. Inr (Some text)),
             ollama_generate := (\<lambda>m p. Inr (Some text))\<rparr>"

text \<open>The state when the module has been loaded, without and with the two API keys.\<close>

definition loaded :: "bool \<Rightarrow> bool \<Rightarrow> world" where
  "loaded gemini_key groq_key =
     \<lparr>gemini_client = gemini_key, groq_client = groq_key,
      groq_selectedModel = None, ollama_selectedModel = None,
      providerState_groq = \<lparr>models = [], selectedModel = None\<rparr>,
      providerState_ollama = \<lparr>models = [], selectedModel = None\<rparr>,
      calls = []\<rparr>"

text \<open>Both keys configured and a model selected in both provider objects.\<close>

definition ready :: world where
  "ready = (loaded True True)\<lparr>groq_selectedModel := Some (str ''llama3-8b-8192''),
                              ollama_selectedModel := Some (str ''llama2'')\<rparr>"

text \<open>The text \<open>{"topics":[]}\<close>, and a world in which a backend answers it.\<close>

definition no_topics_text :: jsstring where
  "no_topics_text = str ''{'' @ [0x22] @ str ''topics'' @ [0x22] @ str '':[]}''"

definition answering_no_topics :: env where
  "answering_no_topics =
     (answering no_topics_text)
       \<lparr>JSON_parse := (\<lambda>text. if text = no_topics_text
                                then Some (JObject [(str ''topics'', JArray [])])
                                else None)\<rparr>"

text \<open>A world in which Groq lists no model at all.\<close>

definition groq_lists_nothing :: env where
  "groq_lists_nothing = offline\<lparr>groq_models_list := Inr (Some [])\<rparr>"


text \<open>Gemini answers the requests for a summary and throws on the requests for posts.\<close>

definition posts_failing :: env where
  "posts_failing =
     offline\<lparr>gemini_generateContent :=
        (\<lambda>p. case p of
                TweetPrompt s \<Rightarrow> Inl (Error (str ''quota exceeded''))
              | _ \<Rightarrow> Inr (str ''Some news''))\<rparr>"

text \<open>An implementation of the interface whose availability check reports nothing.\<close>

definition none_available :: "world providers" where
  "none_available = (ai_providers offline)\<lparr>lib_getAvailableProviders := (\<lambda>w. ([], w))\<rparr>"

text \<open>An answer with a code fence, a line about tweets, a short line and four usable
  lines.\<close>

definition five_line_answer :: jsstring where
  "five_line_answer =
     str ''```'' @ [0x0A] @ str ''Here are your tweets:'' @ [0x0A] @ str ''too short'' @ [0x0A]
     @ str ''  First usable line of text  '' @ [0x0A] @ str ''Second usable line of text''
     @ [0x0A] @ str ''Third usable line of text'' @ [0x0A] @ str ''Fourth usable line of text''"

text \<open>An answer of three lines, two of them long enough.\<close>

definition listed_answer :: jsstring where
  "listed_answer =
     str ''1. **AI Regulation**: New EU rules'' @ [0x0A] @ str ''too short'' @ [0x0A]
     @ str ''Markets rally again''"

text \<open>A parser that reads one text as an object with four topics and the text
  \<open>null\<close> as \<open>null\<close>, and throws on every other text.\<close>

definition four_topics :: "jsvalue list" where
  "four_topics = [JString (str ''a''), JString (str ''b''), JString (str ''c''), JString (str ''d'')]"

definition parsing_four_topics :: "jsstring \<Rightarrow> env" where
  "parsing_four_topics text =
     (answering text)
       \<lparr>JSON_parse := (\<lambda>t. if t = str ''four'' then Some (JObject [(str ''topics'', JArray four_topics)])
                             else if t = str ''null'' then Some JNull
                             else None)\<rparr>"

text \<open>Lower case for the letters A to Z.\<close>

definition ascii_lower :: "jsstring \<Rightarrow> jsstring" where
  "ascii_lower s = map (\<lambda>c. if 0x41 \<le> c \<and> c \<le> 0x5A then c + 0x20 else c) s"


section \<open>What a settled pipeline contributes\<close>





section \<open>Properties of the provider classes\<close>

subsection \<open>Social posts\<close>

text \<open>
  Claim C3 says that the operation that generates the posts returns between one and three
  of them whatever the backend answers.  The helper \<open>generateTweetsWithGemini\<close> of the
  second module has no placeholder: on the empty answer \<open>JSON.parse\<close> throws, no line
  starts with a double quote, and it returns no post at all.
\<close>

theorem generateTweetsWithGemini_returns_no_tweets:
  "generateTweetsWithGemini (answering []) (TweetPrompt (str ''news'')) (older_loaded True False)
     = (Inr (JArray []),
        (older_loaded True False)\<lparr>older_calls := [GeminiGenerate (TweetPrompt (str ''news''))]\<rparr>)"
  by (simp add: generateTweetsWithGemini_def answering_def offline_def older_loaded_def
        quoted_lines_def trim_def startsWith_def Let_def)

lemma length_placeholder_tweets: "length placeholder_tweets = 3"
  by (simp add: placeholder_tweets_def)

lemma length_tweets_of_content:
  "1 \<le> length (tweets_of_content c) \<and> length (tweets_of_content c) \<le> 3"
proof -
  obtain ts where ts:
    "tweets_of_content c = (if length (take 3 ts) > 0 then take 3 ts else placeholder_tweets)"
    unfolding tweets_of_content_def Let_def by blast
  have "length (take 3 ts) \<le> 3" by simp
  then show ?thesis
    unfolding ts
    by (cases "length (take 3 ts) > 0")
       (simp_all add: length_placeholder_tweets Suc_le_eq del: length_take)
qed

lemma tweets_of_empty_content: "tweets_of_content [] = placeholder_tweets"
  by (simp add: tweets_of_content_def trim_def)

text \<open>
  Claim C3, amended to the provider classes.  Whatever text the backend answers, the
  empty text included, the \<open>generateTweets\<close> methods of \<open>GeminiProvider\<close>,
  \<open>GroqProvider\<close> and \<open>OllamaProvider\<close> return at least one and at most three posts.
  The usable lines are the trimmed lines longer than 10 that do not start with a code
  fence and do not contain \<open>tweet\<close>; when there is one, the first three of them are
  returned, each cut to 267 code units and \<open>...\<close> when it is longer than 270; when
  there is none, the three fixed placeholder posts are returned.
\<close>

theorem generateTweets_one_to_three:
  assumes "usable = (\<lambda>line. length line > 10 \<and> \<not> startsWith line (str ''```'')
                              \<and> \<not> includes_str line (str ''tweet''))"
      and "shorten = (\<lambda>post. if length post > 270 then take 267 post @ str ''...'' else post)"
      and "usable_lines = filter usable (map trim (split_lines content))"
  shows "(usable_lines = [] \<longrightarrow> tweets_of_content content = placeholder_tweets) \<and>
         (usable_lines \<noteq> [] \<longrightarrow> tweets_of_content content = take 3 (map shorten usable_lines)) \<and>
         1 \<le> length (tweets_of_content content) \<and> length (tweets_of_content content) \<le> 3 \<and>
         (\<forall>post\<in>set (tweets_of_content content).
            post \<in> set placeholder_tweets \<or> length post \<le> 270) \<and>
         tweets_of_content [] = placeholder_tweets \<and> length placeholder_tweets = 3 \<and>
         (gemini_client w \<and> gemini_generateContent E (TweetPrompt smry) = Inr content \<longrightarrow>
            fst (GeminiProvider_generateTweets E smry w) = Inr (tweets_of_content content)) \<and>
         (groq_client w \<and> groq_selectedModel w = Some m \<and> m \<noteq> [] \<and>
          groq_chat_completions E m (TweetPrompt smry) = Inr c \<and> or_empty c = content \<longrightarrow>
            fst (GroqProvider_generateTweets E smry w) = Inr (tweets_of_content content)) \<and>
         (ollama_selectedModel w = Some m' \<and> m' \<noteq> [] \<and>
          ollama_generate E m' (TweetPrompt smry) = Inr c' \<and> or_empty c' = content \<longrightarrow>
            fst (OllamaProvider_generateTweets E smry w) = Inr (tweets_of_content content))"
proof -
  have T: "tweets_of_content content =
             (if length (take 3 (map shorten usable_lines)) > 0
              then take 3 (map shorten usable_lines) else placeholder_tweets)"
    unfolding assms tweets_of_content_def Let_def by (rule refl)
  have none: "usable_lines = [] \<longrightarrow> tweets_of_content content = placeholder_tweets"
    unfolding T by simp
  have some: "usable_lines \<noteq> [] \<longrightarrow> tweets_of_content content = take 3 (map shorten usable_lines)"
    unfolding T by (cases usable_lines) simp_all
  have shorten_len: "length (shorten post) \<le> 270" for post
    unfolding assms by (simp add: str_def)
  have bound: "\<forall>post\<in>set (tweets_of_content content).
                 post \<in> set placeholder_tweets \<or> length post \<le> 270"
  proof (cases "usable_lines = []")
    case True
    with none show ?thesis by simp
  next
    case False
    with some have "set (tweets_of_content content) \<subseteq> shorten ` set usable_lines"
      by (auto dest: in_set_takeD)
    with shorten_len show ?thesis by auto
  qed
  have bounds: "1 \<le> length (tweets_of_content content) \<and> length (tweets_of_content content) \<le> 3"
    using length_tweets_of_content [of content] .
  have methods:
    "(gemini_client w \<and> gemini_generateContent E (TweetPrompt smry) = Inr content \<longrightarrow>
        fst (GeminiProvider_generateTweets E smry w) = Inr (tweets_of_content content)) \<and>
     (groq_client w \<and> groq_selectedModel w = Some m \<and> m \<noteq> [] \<and>
      groq_chat_completions E m (TweetPrompt smry) = Inr c \<and> or_empty c = content \<longrightarrow>
        fst (GroqProvider_generateTweets E smry w) = Inr (tweets_of_content content)) \<and>
     (ollama_selectedModel w = Some m' \<and> m' \<noteq> [] \<and>
      ollama_generate E m' (TweetPrompt smry) = Inr c' \<and> or_empty c' = content \<longrightarrow>
        fst (OllamaProvider_generateTweets E smry w) = Inr (tweets_of_content content))"
    by (auto simp: GeminiProvider_generateTweets_def GroqProvider_generateTweets_def
          OllamaProvider_generateTweets_def Let_def)
  from none some bounds bound methods show ?thesis
    by (simp add: tweets_of_empty_content length_placeholder_tweets)
qed

lemma tweets_of_five_line_answer:
  "filter (\<lambda>line. length line > 10 \<and> \<not> startsWith line (str ''```'')
                              \<and> \<not> includes_str line (str ''tweet''))
     (map trim (split_lines five_line_answer))
   = [str ''First usable line of text'', str ''Second usable line of text'',
      str ''Third usable line of text'', str ''Fourth usable line of text'']"
  by (simp add: five_line_answer_def trim_def isWhiteSpace_def startsWith_def str_def)

lemma tweets_of_hi:
  "filter (\<lambda>line. length line > 10 \<and> \<not> startsWith line (str ''```'')
                              \<and> \<not> includes_str line (str ''tweet''))
     (map trim (split_lines (str ''hi''))) = []"
  by (simp add: trim_def isWhiteSpace_def str_def)

theorem generateTweets_one_to_three_witness:
  "fst (GeminiProvider_generateTweets (answering (str ''hi'')) (str ''news'') ready)
     = Inr placeholder_tweets \<and>
   fst (GroqProvider_generateTweets (answering []) (str ''news'') ready)
     = Inr placeholder_tweets \<and>
   fst (OllamaProvider_generateTweets (answering five_line_answer) (str ''news'') ready)
     = Inr [str ''First usable line of text'', str ''Second usable line of text'',
            str ''Third usable line of text'']"
proof -
  have ready: "gemini_client ready" "groq_client ready"
    "groq_selectedModel ready = Some (str ''llama3-8b-8192'')" "str ''llama3-8b-8192'' \<noteq> []"
    "ollama_selectedModel ready = Some (str ''llama2'')" "str ''llama2'' \<noteq> []"
    by (simp_all add: ready_def loaded_def str_def)
  have answers:
    "gemini_generateContent (answering t) p = Inr t"
    "groq_chat_completions (answering t) mo p = Inr (Some t)"
    "ollama_generate (answering t) mo p = Inr (Some t)" for t mo p
    by (simp_all add: answering_def offline_def)
  from generateTweets_one_to_three
         [OF refl refl refl, of "str ''hi''" ready "answering (str ''hi'')" "str ''news''",
          unfolded tweets_of_hi]
  have a: "fst (GeminiProvider_generateTweets (answering (str ''hi'')) (str ''news'') ready)
             = Inr placeholder_tweets"
    using ready answers by simp
  from generateTweets_one_to_three
         [OF refl refl refl, of "[]" ready "answering []" "str ''news''"
            "str ''llama3-8b-8192''" "Some []"]
  have b: "fst (GroqProvider_generateTweets (answering []) (str ''news'') ready)
             = Inr placeholder_tweets"
    using ready answers by simp
  from generateTweets_one_to_three
         [OF refl refl refl, of five_line_answer ready "answering five_line_answer" "str ''news''"
            _ _ "str ''llama2''" "Some five_line_answer", unfolded tweets_of_five_line_answer]
  have c: "fst (OllamaProvider_generateTweets (answering five_line_answer) (str ''news'') ready)
             = Inr [str ''First usable line of text'', str ''Second usable line of text'',
                    str ''Third usable line of text'']"
    using ready answers by (simp add: str_def)
  from a b c show ?thesis by blast
qed

subsection \<open>Trending topics\<close>

text \<open>
  Claim C4 says that \<open>getTrendingTopics\<close> returns between one and three entries
  whatever the backend answers.  The Gemini provider returns \<open>parsed.topics || []\<close>
  as it is: when the answer is the JSON text of an object with an empty \<open>topics\<close>
  array, it returns no entry.
\<close>

theorem getTrendingTopics_gemini_returns_no_topics:
  "GeminiProvider_getTrendingTopics answering_no_topics (loaded True False)
     = (Inr (JArray []), (loaded True False)\<lparr>calls := [GeminiGenerate TrendingPrompt]\<rparr>)"
  by (simp add: GeminiProvider_getTrendingTopics_def answering_no_topics_def answering_def
        offline_def loaded_def send_def topics_or_fallback_def Let_def)

lemma length_groq_text_topics:
  "1 \<le> length (groq_text_topics E content) \<and> length (groq_text_topics E content) \<le> 3"
  by (auto simp: groq_text_topics_def Let_def groq_fallback_topics_def Suc_le_eq)

lemma groq_text_topics_tiers:
  assumes "long_lines = filter (\<lambda>line. length (trim line) > 10) (split_lines content)"
  shows "(long_lines \<noteq> [] \<longrightarrow>
            groq_text_topics E content = map (topic_of_line E) (take 3 long_lines)) \<and>
         (long_lines = [] \<longrightarrow> groq_text_topics E content = groq_fallback_topics)"
  unfolding assms groq_text_topics_def Let_def
  by (auto simp: min_def take_map)

text \<open>
  Claim C4, amended.  \<open>GroqProvider.getTrendingTopics\<close> returns between one and three
  entries for every answer: the first three entries of \<open>topics\<close> when the answer parses
  as an object whose \<open>topics\<close> is a non-empty array; in every other case one topic for
  each of the first three lines whose trimmed length exceeds 10; and its fixed list of
  three when there is no such line.  The topic of a line is read from the trimmed line
  without its numbering and its bold markers: title and description are the trimmed
  parts before and after the first colon when there is one after the first position,
  and otherwise the title is the whole line and the description is
  \<open>Recent developments in\<close> followed by the line in lower case.  \<open>GeminiProvider\<close> and \<open>OllamaProvider\<close> have
  neither the heuristic tier nor a bound: they return their fixed list of three when
  \<open>JSON.parse\<close> throws or gives \<open>null\<close>, the parsed \<open>topics\<close> value unchanged when
  it is truthy, and the empty list in every other case.
\<close>

theorem getTrendingTopics_tiers:
  assumes "long_lines = filter (\<lambda>line. length (trim line) > 10) (split_lines content)"
      and "text_topics = (if long_lines = [] then groq_fallback_topics
                          else map (topic_of_line E) (take 3 long_lines))"
      and "clean = trim (unbold (strip_numbering (trim line)))"
  shows "(groq_client w \<and> groq_selectedModel w = Some m \<and> m \<noteq> [] \<and>
          groq_chat_completions E m TrendingPrompt = Inr c \<and> or_empty c = content \<longrightarrow>
            fst (GroqProvider_getTrendingTopics E w) = Inr (JArray (groq_topics_of_content E content))) \<and>
         1 \<le> length (groq_topics_of_content E content) \<and>
         length (groq_topics_of_content E content) \<le> 3 \<and>
         (JSON_parse E content = Some (JObject kvs) \<and>
          map_of kvs (str ''topics'') = Some (JArray ts) \<and> ts \<noteq> [] \<longrightarrow>
            groq_topics_of_content E content = take 3 ts) \<and>
         (\<not> (\<exists>kvs ts. JSON_parse E content = Some (JObject kvs) \<and>
                     map_of kvs (str ''topics'') = Some (JArray ts) \<and> ts \<noteq> []) \<longrightarrow>
            groq_topics_of_content E content = text_topics) \<and>
         length groq_fallback_topics = 3 \<and>
         (indexOf_colon clean = Some k \<and> k > 0 \<longrightarrow>
            topic_of_line E line =
              TrendingTopic (trim (take k clean)) (trim (drop (Suc k) clean))) \<and>
         (indexOf_colon clean = None \<or> indexOf_colon clean = Some 0 \<longrightarrow>
            topic_of_line E line =
              TrendingTopic clean (str ''Recent developments in '' @ toLowerCase E clean)) \<and>
         (gemini_client w \<and> gemini_generateContent E TrendingPrompt = Inr content \<longrightarrow>
            fst (GeminiProvider_getTrendingTopics E w) =
              Inr (topics_or_fallback E content gemini_fallback_topics)) \<and>
         (ollama_selectedModel w = Some m' \<and> m' \<noteq> [] \<and>
          ollama_generate E m' TrendingPrompt = Inr c' \<and> or_empty c' = content \<longrightarrow>
            fst (OllamaProvider_getTrendingTopics E w) =
              Inr (topics_or_fallback E content ollama_fallback_topics)) \<and>
         (JSON_parse E content = None \<or> JSON_parse E content = Some JNull \<longrightarrow>
            topics_or_fallback E content fallback = fallback) \<and>
         (JSON_parse E content = Some (JObject kvs) \<and> map_of kvs (str ''topics'') = Some v \<and>
          truthy v \<longrightarrow> topics_or_fallback E content fallback = v) \<and>
         (JSON_parse E content = Some parsed \<and> parsed \<noteq> JNull \<and> parsed \<noteq> JUndefined \<and>
          \<not> (\<exists>kvs v. parsed = JObject kvs \<and> map_of kvs (str ''topics'') = Some v \<and> truthy v)
          \<longrightarrow> topics_or_fallback E content fallback = JArray []) \<and>
         gemini_fallback_topics =
           JArray [TrendingTopic (str ''Technology Updates'') (str ''Latest tech developments''),
                   TrendingTopic (str ''Global Politics'') (str ''Recent political developments''),
                   TrendingTopic (str ''Economic News'') (str ''Financial market updates'')] \<and>
         ollama_fallback_topics =
           JArray [TrendingTopic (str ''AI Development'') (str ''Latest AI advancements''),
                   TrendingTopic (str ''Tech Innovation'') (str ''New technology releases''),
                   TrendingTopic (str ''Market Updates'') (str ''Financial developments'')]"
proof -
  have heuristic: "groq_text_topics E content = text_topics"
    using groq_text_topics_tiers [OF assms(1), of E] assms(2) by simp
  have groq_part:
    "groq_client w \<and> groq_selectedModel w = Some m \<and> m \<noteq> [] \<and>
     groq_chat_completions E m TrendingPrompt = Inr c \<and> or_empty c = content \<longrightarrow>
       fst (GroqProvider_getTrendingTopics E w) = Inr (JArray (groq_topics_of_content E content))"
    by (auto simp: GroqProvider_getTrendingTopics_def Let_def)
  have bounds: "1 \<le> length (groq_topics_of_content E content) \<and>
               length (groq_topics_of_content E content) \<le> 3"
    using length_groq_text_topics [of E content]
    by (auto simp: groq_topics_of_content_def Suc_le_eq
             split: option.splits sum.splits jsvalue.splits)
  have tier1: "JSON_parse E content = Some (JObject kvs) \<and>
               map_of kvs (str ''topics'') = Some (JArray ts) \<and> ts \<noteq> [] \<longrightarrow>
                 groq_topics_of_content E content = take 3 ts"
    by (simp add: groq_topics_of_content_def)
  have tier23: "\<not> (\<exists>kvs ts. JSON_parse E content = Some (JObject kvs) \<and>
                          map_of kvs (str ''topics'') = Some (JArray ts) \<and> ts \<noteq> []) \<longrightarrow>
                  groq_topics_of_content E content = text_topics"
  proof (cases "JSON_parse E content")
    case None
    then show ?thesis by (simp add: groq_topics_of_content_def heuristic)
  next
    case (Some parsed)
    then show ?thesis
      by (cases parsed)
         (auto simp: groq_topics_of_content_def heuristic split: option.splits jsvalue.splits)
  qed
  have others:
    "(gemini_client w \<and> gemini_generateContent E TrendingPrompt = Inr content \<longrightarrow>
        fst (GeminiProvider_getTrendingTopics E w) =
          Inr (topics_or_fallback E content gemini_fallback_topics)) \<and>
     (ollama_selectedModel w = Some m' \<and> m' \<noteq> [] \<and>
      ollama_generate E m' TrendingPrompt = Inr c' \<and> or_empty c' = content \<longrightarrow>
        fst (OllamaProvider_getTrendingTopics E w) =
          Inr (topics_or_fallback E content ollama_fallback_topics))"
    by (auto simp: GeminiProvider_getTrendingTopics_def OllamaProvider_getTrendingTopics_def Let_def)
  have two_tiers:
    "(JSON_parse E content = None \<or> JSON_parse E content = Some JNull \<longrightarrow>
        topics_or_fallback E content fallback = fallback) \<and>
     (JSON_parse E content = Some (JObject kvs) \<and> map_of kvs (str ''topics'') = Some v \<and>
      truthy v \<longrightarrow> topics_or_fallback E content fallback = v) \<and>
     (JSON_parse E content = Some parsed \<and> parsed \<noteq> JNull \<and> parsed \<noteq> JUndefined \<and>
      \<not> (\<exists>kvs v. parsed = JObject kvs \<and> map_of kvs (str ''topics'') = Some v \<and> truthy v)
      \<longrightarrow> topics_or_fallback E content fallback = JArray [])"
    by (cases parsed) (auto simp: topics_or_fallback_def split: option.splits)
  have lists:
    "length groq_fallback_topics = 3"
    "gemini_fallback_topics =
       JArray [TrendingTopic (str ''Technology Updates'') (str ''Latest tech developments''),
               TrendingTopic (str ''Global Politics'') (str ''Recent political developments''),
               TrendingTopic (str ''Economic News'') (str ''Financial market updates'')]"
    "ollama_fallback_topics =
       JArray [TrendingTopic (str ''AI Development'') (str ''Latest AI advancements''),
               TrendingTopic (str ''Tech Innovation'') (str ''New technology releases''),
               TrendingTopic (str ''Market Updates'') (str ''Financial developments'')]"
    by (simp_all add: groq_fallback_topics_def gemini_fallback_topics_def ollama_fallback_topics_def)
  have line_topic:
    "(indexOf_colon clean = Some k \<and> k > 0 \<longrightarrow>
        topic_of_line E line =
          TrendingTopic (trim (take k clean)) (trim (drop (Suc k) clean))) \<and>
     (indexOf_colon clean = None \<or> indexOf_colon clean = Some 0 \<longrightarrow>
        topic_of_line E line =
          TrendingTopic clean (str ''Recent developments in '' @ toLowerCase E clean))"
    unfolding assms(3) by (auto simp: topic_of_line_def Let_def)
  from groq_part bounds tier1 tier23 others two_tiers lists
  have rest: "?thesis \<longleftrightarrow>
    (indexOf_colon clean = Some k \<and> k > 0 \<longrightarrow>
        topic_of_line E line =
          TrendingTopic (trim (take k clean)) (trim (drop (Suc k) clean))) \<and>
     (indexOf_colon clean = None \<or> indexOf_colon clean = Some 0 \<longrightarrow>
        topic_of_line E line =
          TrendingTopic clean (str ''Recent developments in '' @ toLowerCase E clean))"
    by simp
  from line_topic show ?thesis
    unfolding rest .
qed

lemma listed_answer_lines:
  "filter (\<lambda>line. length (trim line) > 10) (split_lines listed_answer)
     = [str ''1. **AI Regulation**: New EU rules'', str ''Markets rally again'']"
  by (simp add: listed_answer_def trim_def isWhiteSpace_def str_def)

lemma listed_answer_topics:
  "map (topic_of_line ((answering listed_answer)\<lparr>toLowerCase := ascii_lower\<rparr>))
     [str ''1. **AI Regulation**: New EU rules'', str ''Markets rally again'']
   = [TrendingTopic (str ''AI Regulation'') (str ''New EU rules''),
      TrendingTopic (str ''Markets rally again'') (str ''Recent developments in markets rally again'')]"
  by (simp add: topic_of_line_def Let_def trim_def isWhiteSpace_def strip_numbering_def
        isDigit_def startsWith_def isLineTerminator_def ascii_lower_def
        TrendingTopic_def str_def)

theorem getTrendingTopics_tiers_witness:
  "fst (GroqProvider_getTrendingTopics (parsing_four_topics (str ''four'')) ready)
     = Inr (JArray [JString (str ''a''), JString (str ''b''), JString (str ''c'')]) \<and>
   fst (GroqProvider_getTrendingTopics ((answering listed_answer)\<lparr>toLowerCase := ascii_lower\<rparr>) ready)
     = Inr (JArray [TrendingTopic (str ''AI Regulation'') (str ''New EU rules''),
                    TrendingTopic (str ''Markets rally again'')
                      (str ''Recent developments in markets rally again'')]) \<and>
   fst (GroqProvider_getTrendingTopics (answering (str ''garbage'')) ready)
     = Inr (JArray groq_fallback_topics) \<and>
   fst (GeminiProvider_getTrendingTopics (answering (str ''garbage'')) ready)
     = Inr gemini_fallback_topics \<and>
   fst (GeminiProvider_getTrendingTopics (parsing_four_topics (str ''null'')) ready)
     = Inr gemini_fallback_topics \<and>
   fst (OllamaProvider_getTrendingTopics (parsing_four_topics (str ''four'')) ready)
     = Inr (JArray four_topics) \<and>
   length four_topics = 4"
proof -
  have ready: "gemini_client ready" "groq_client ready"
    "groq_selectedModel ready = Some (str ''llama3-8b-8192'')" "str ''llama3-8b-8192'' \<noteq> []"
    "ollama_selectedModel ready = Some (str ''llama2'')" "str ''llama2'' \<noteq> []"
    by (simp_all add: ready_def loaded_def str_def)
  have four: "JSON_parse (parsing_four_topics (str ''four'')) (str ''four'')
                = Some (JObject [(str ''topics'', JArray four_topics)])"
     and null: "JSON_parse (parsing_four_topics (str ''null'')) (str ''null'') = Some JNull"
     and none: "JSON_parse (answering t) t' = None"
               "JSON_parse ((answering t)\<lparr>toLowerCase := ascii_lower\<rparr>) t' = None" for t t'
    by (simp_all add: parsing_four_topics_def answering_def offline_def str_def)
  have answers:
    "gemini_generateContent (answering t) p = Inr t"
    "groq_chat_completions (answering t) mo p = Inr (Some t)"
    "groq_chat_completions ((answering t)\<lparr>toLowerCase := ascii_lower\<rparr>) mo p = Inr (Some t)"
    "gemini_generateContent (parsing_four_topics t) p = Inr t"
    "groq_chat_completions (parsing_four_topics t) mo p = Inr (Some t)"
    "ollama_generate (parsing_four_topics t) mo p = Inr (Some t)" for t mo p
    by (simp_all add: answering_def offline_def parsing_four_topics_def)
  have garbage: "filter (\<lambda>line. length (trim line) > 10) (split_lines (str ''garbage'')) = []"
    by (simp add: trim_def isWhiteSpace_def str_def)
  from getTrendingTopics_tiers
         [OF refl refl refl, where w = ready and m = "str ''llama3-8b-8192''"
            and E = "parsing_four_topics (str ''four'')" and c = "Some (str ''four'')"
            and content = "str ''four''" and kvs = "[(str ''topics'', JArray four_topics)]"
            and ts = four_topics]
  have a: "fst (GroqProvider_getTrendingTopics (parsing_four_topics (str ''four'')) ready)
             = Inr (JArray [JString (str ''a''), JString (str ''b''), JString (str ''c'')])"
    using ready answers four by (simp add: four_topics_def)
  from getTrendingTopics_tiers
         [OF refl refl refl, where w = ready and m = "str ''llama3-8b-8192''"
            and E = "(answering listed_answer)\<lparr>toLowerCase := ascii_lower\<rparr>"
            and c = "Some listed_answer" and content = listed_answer,
          unfolded listed_answer_lines]
  have b: "fst (GroqProvider_getTrendingTopics
                  ((answering listed_answer)\<lparr>toLowerCase := ascii_lower\<rparr>) ready)
             = Inr (JArray [TrendingTopic (str ''AI Regulation'') (str ''New EU rules''),
                            TrendingTopic (str ''Markets rally again'')
                              (str ''Recent developments in markets rally again'')])"
    using ready answers none listed_answer_topics by simp
  from getTrendingTopics_tiers
         [OF refl refl refl, where w = ready and m = "str ''llama3-8b-8192''"
            and E = "answering (str ''garbage'')" and c = "Some (str ''garbage'')"
            and content = "str ''garbage''" and fallback = gemini_fallback_topics,
          unfolded garbage]
  have c: "fst (GroqProvider_getTrendingTopics (answering (str ''garbage'')) ready)
             = Inr (JArray groq_fallback_topics)"
      and d: "fst (GeminiProvider_getTrendingTopics (answering (str ''garbage'')) ready)
             = Inr gemini_fallback_topics"
    using ready answers none by simp_all
  from getTrendingTopics_tiers
         [OF refl refl refl, where w = ready and E = "parsing_four_topics (str ''null'')"
            and content = "str ''null''" and fallback = gemini_fallback_topics]
  have e: "fst (GeminiProvider_getTrendingTopics (parsing_four_topics (str ''null'')) ready)
             = Inr gemini_fallback_topics"
    using ready answers null by simp
  from getTrendingTopics_tiers
         [OF refl refl refl, where w = ready and E = "parsing_four_topics (str ''four'')"
            and content = "str ''four''" and kvs = "[(str ''topics'', JArray four_topics)]"
            and m' = "str ''llama2''" and c' = "Some (str ''four'')"
            and v = "JArray four_topics" and fallback = ollama_fallback_topics]
  have f: "fst (OllamaProvider_getTrendingTopics (parsing_four_topics (str ''four'')) ready)
             = Inr (JArray four_topics)"
    using ready answers four by simp
  from a b c d e f show ?thesis by (simp add: four_topics_def)
qed

subsection \<open>Model selection\<close>

text \<open>
  Claim C5 says that a generation call made while no model is selected fails rather than
  substituting a default.  The helper \<open>generateWithGroq\<close> of the second module sends
  its request on \<open>CONFIG.GROQ_MODEL\<close>: on the freshly loaded module, where nobody has
  selected a model and that default is preset, and also when \<open>providerState\<close> holds no
  model at all.
\<close>

theorem generateWithGroq_uses_default_model:
  "generateWithGroq (answering (str ''text'')) (SummaryPrompt (str ''ai'') short)
     (older_loaded False True)
     = (Inr (str ''text'', []),
        (older_loaded False True)
          \<lparr>older_calls := [GroqChat (str ''llama3.2:latest'') (SummaryPrompt (str ''ai'') short)]\<rparr>) \<and>
   generateWithGroq (answering (str ''text'')) (SummaryPrompt (str ''ai'') short)
     ((older_loaded False True)
        \<lparr>older_providerState_groq := \<lparr>models = [], selectedModel = None\<rparr>\<rparr>)
     = (Inr (str ''text'', []),
        (older_loaded False True)
          \<lparr>older_providerState_groq := \<lparr>models = [], selectedModel = None\<rparr>,
           older_calls := [GroqChat (str ''llama3.2:latest'') (SummaryPrompt (str ''ai'') short)]\<rparr>)"
  by (simp add: generateWithGroq_def answering_def offline_def older_loaded_def GROQ_MODEL_def
        Let_def str_def)

text \<open>
  Claim C5, amended to the provider classes.  For \<open>GroqProvider\<close> and
  \<open>OllamaProvider\<close>, each of \<open>generateSummary\<close>, \<open>generateTweets\<close> and
  \<open>getTrendingTopics\<close> called while the provider holds no model throws an error that
  says so (for Groq, that the key is missing when there is no key either), and leaves
  the state as it was: no request is sent and no default model is substituted.  The same
  holds through the manager when no model is selected in \<open>providerState\<close> either.  For
  Ollama that is the case only until the first listing: \<open>listOllamaModels\<close>, which
  \<open>getAvailableProviders\<close> calls, selects the first listed model.
\<close>

theorem no_model_selected_fails_fast:
  "(falsy_string (groq_selectedModel w) \<longrightarrow>
      GroqProvider_generateSummary E topic len w =
        (Inl (Error (if groq_client w
                     then str ''No Groq model selected. Please select a model first.''
                     else str ''Groq API key not configured'')), w) \<and>
      GroqProvider_generateTweets E smry w =
        (Inl (Error (if groq_client w
                     then str ''No Groq model selected. Please select a model first.''
                     else str ''Groq API key not configured'')), w) \<and>
      GroqProvider_getTrendingTopics E w =
        (Inl (Error (if groq_client w
                     then str ''No Groq model selected. Please select a model first.''
                     else str ''Groq API key not configured'')), w)) \<and>
   (falsy_string (ollama_selectedModel w) \<longrightarrow>
      OllamaProvider_generateSummary E topic len w =
        (Inl (Error (str ''No Ollama model selected'')), w) \<and>
      OllamaProvider_generateTweets E smry w =
        (Inl (Error (str ''No Ollama model selected'')), w) \<and>
      OllamaProvider_getTrendingTopics E w =
        (Inl (Error (str ''No Ollama model selected'')), w)) \<and>
   (falsy_string (groq_selectedModel w) \<and> falsy_string (selectedModel (providerState_groq w)) \<longrightarrow>
      AIProviderManager_generateSummary E groq topic len w =
        (Inl (Error (if groq_client w
                     then str ''No Groq model selected. Please select a model first.''
                     else str ''Groq is not available'')), w) \<and>
      AIProviderManager_generateTweets E groq smry w =
        (Inl (Error (if groq_client w
                     then str ''No Groq model selected. Please select a model first.''
                     else str ''Groq is not available'')), w) \<and>
      AIProviderManager_getTrendingTopics E groq w =
        (Inl (Error (if groq_client w
                     then str ''No Groq model selected. Please select a model first.''
                     else str ''Groq is not available'')), w)) \<and>
   (falsy_string (ollama_selectedModel w) \<and> falsy_string (selectedModel (providerState_ollama w)) \<longrightarrow>
      AIProviderManager_generateSummary E ollama topic len w =
        (Inl (Error (str ''No Ollama model selected'')), w) \<and>
      AIProviderManager_generateTweets E ollama smry w =
        (Inl (Error (str ''No Ollama model selected'')), w) \<and>
      AIProviderManager_getTrendingTopics E ollama w =
        (Inl (Error (str ''No Ollama model selected'')), w)) \<and>
   selectedModel (providerState_ollama (snd (listOllamaModels w))) = Some (str ''llama2'') \<and>
   \<not> falsy_string (selectedModel (providerState_ollama (snd (getAvailableProviders w))))"
  by (simp add: listOllamaModels_def getAvailableProviders_def Let_def GroqProvider_generateSummary_def GroqProvider_generateTweets_def
        GroqProvider_getTrendingTopics_def OllamaProvider_generateSummary_def
        OllamaProvider_generateTweets_def OllamaProvider_getTrendingTopics_def
        AIProviderManager_generateSummary_def AIProviderManager_generateTweets_def
        AIProviderManager_getTrendingTopics_def copySelectedModel_def str_def)

theorem no_model_selected_fails_fast_witness:
  "GroqProvider_generateSummary (answering (str ''text'')) (str ''quantum computing'') short (loaded True True)
     = (Inl (Error (str ''No Groq model selected. Please select a model first.'')), loaded True True) \<and>
   OllamaProvider_generateSummary (answering (str ''text'')) (str ''quantum computing'') short (loaded True True)
     = (Inl (Error (str ''No Ollama model selected'')), loaded True True) \<and>
   AIProviderManager_getTrendingTopics (answering (str ''text'')) groq (loaded True True)
     = (Inl (Error (str ''No Groq model selected. Please select a model first.'')), loaded True True) \<and>
   AIProviderManager_generateTweets (answering (str ''text'')) ollama (str ''news'') (loaded True True)
     = (Inl (Error (str ''No Ollama model selected'')), loaded True True) \<and>
   calls (loaded True True) = []"
  using no_model_selected_fails_fast
          [of "loaded True True" "answering (str ''text'')" "str ''quantum computing''" short
              "str ''news''"]
  by (simp add: loaded_def)

text \<open>
  Claim C7.  The listing functions store the list they return.  Selecting a model that
  is in the stored list makes it the selected model; selecting one that is not in the
  list changes nothing.
\<close>

theorem selectModel_then_getSelectedModel:
  "fst (listGroqModels E w) = models (providerState_groq (snd (listGroqModels E w))) \<and>
   fst (listOllamaModels w) = models (providerState_ollama (snd (listOllamaModels w))) \<and>
   (modelId \<in> set (models (providerState_groq w)) \<longrightarrow>
      getSelectedGroqModel (setSelectedGroqModel modelId w) = Some modelId) \<and>
   (modelId \<notin> set (models (providerState_groq w)) \<longrightarrow>
      getSelectedGroqModel (setSelectedGroqModel modelId w) = getSelectedGroqModel w \<and>
      setSelectedGroqModel modelId w = w) \<and>
   (modelId \<in> set (models (providerState_ollama w)) \<longrightarrow>
      getSelectedOllamaModel (setSelectedOllamaModel modelId w) = Some modelId) \<and>
   (modelId \<notin> set (models (providerState_ollama w)) \<longrightarrow>
      getSelectedOllamaModel (setSelectedOllamaModel modelId w) = getSelectedOllamaModel w \<and>
      setSelectedOllamaModel modelId w = w)"
  by (auto simp: listGroqModels_def listOllamaModels_def Let_def send_def
        getSelectedGroqModel_def setSelectedGroqModel_def
        getSelectedOllamaModel_def setSelectedOllamaModel_def split: sum.splits)

theorem selectModel_then_getSelectedModel_witness:
  "getSelectedGroqModel
     (setSelectedGroqModel (str ''llama3-70b-8192'') (snd (listGroqModels offline (loaded False True))))
     = Some (str ''llama3-70b-8192'') \<and>
   getSelectedGroqModel
     (setSelectedGroqModel (str ''gpt-4'') (snd (listGroqModels offline (loaded False True))))
     = None \<and>
   getSelectedOllamaModel
     (setSelectedOllamaModel (str ''codellama'') (snd (listOllamaModels (loaded False True))))
     = Some (str ''codellama'') \<and>
   getSelectedOllamaModel
     (setSelectedOllamaModel (str ''mistral'') (snd (listOllamaModels (loaded False True))))
     = Some (str ''llama2'')"
  using selectModel_then_getSelectedModel
          [of offline "snd (listGroqModels offline (loaded False True))" "str ''llama3-70b-8192''"]
        selectModel_then_getSelectedModel
          [of offline "snd (listGroqModels offline (loaded False True))" "str ''gpt-4''"]
        selectModel_then_getSelectedModel
          [of offline "snd (listOllamaModels (loaded False True))" "str ''codellama''"]
        selectModel_then_getSelectedModel
          [of offline "snd (listOllamaModels (loaded False True))" "str ''mistral''"]
  by (simp add: listGroqModels_def listOllamaModels_def offline_def loaded_def send_def
        Let_def str_def getSelectedGroqModel_def getSelectedOllamaModel_def)

subsection \<open>Availability\<close>

text \<open>
  Claim C8 says that a backend that needs a selected model is reported available only if
  its model list is not empty after a listing.  Groq is reported on its key alone: here
  Groq has just listed no model and is reported all the same.
\<close>

theorem groq_available_without_models:
  "fst (listGroqModels groq_lists_nothing (loaded False True)) = [] \<and>
   models (providerState_groq (snd (listGroqModels groq_lists_nothing (loaded False True)))) = [] \<and>
   fst (getAvailableProviders (snd (listGroqModels groq_lists_nothing (loaded False True))))
     = [groq, ollama]"
  by (simp add: listGroqModels_def groq_lists_nothing_def offline_def loaded_def send_def
        getAvailableProviders_def listOllamaModels_def Let_def)

text \<open>
  Claim C8, amended.  Gemini and Groq are reported available exactly when their client
  is configured; the model list of Groq is not consulted.  Ollama is reported exactly
  when its check passes (it always does) and \<open>listOllamaModels\<close> returns a non-empty
  list, which the fixed list of three always is.
\<close>

theorem getAvailableProviders_reports:
  "fst (getAvailableProviders w) =
     (if isAvailable gemini w then [gemini] else []) @
     (if isAvailable groq w then [groq] else []) @
     (if length (fst (listOllamaModels w)) > 0 then [ollama] else []) \<and>
   (gemini \<in> set (fst (getAvailableProviders w)) \<longleftrightarrow> isAvailable gemini w) \<and>
   (groq \<in> set (fst (getAvailableProviders w)) \<longleftrightarrow> isAvailable groq w) \<and>
   (ollama \<in> set (fst (getAvailableProviders w)) \<longleftrightarrow>
      isAvailable ollama w \<and> length (fst (listOllamaModels w)) > 0) \<and>
   length (fst (listOllamaModels w)) = 3"
  by (simp add: getAvailableProviders_def listOllamaModels_def Let_def)

subsection \<open>The search supplement\<close>

text \<open>For a query that can be encoded and a positive \<open>maxResults\<close>, \<open>searchWeb\<close>
  returns at most \<open>maxResults\<close> sources: those read from an \<open>ok\<close> response, or
  else the single fallback source, whose url ends with the encoded query.\<close>

lemma length_slice0: "0 \<le> e \<Longrightarrow> int (length (slice0 xs e)) \<le> e"
  by (auto simp: slice0_def Let_def)

lemma sources_of_body_bound:
  "sources_of_body body maxResults = Inr srcs \<Longrightarrow> 0 \<le> maxResults \<Longrightarrow>
   int (length srcs) \<le> maxResults"
  by (auto simp: sources_of_body_def length_slice0 split: jsvalue.splits sum.splits)

lemma searchWeb_with_encodable_query:
  assumes "encodeURIComponent query = Inr q" and "1 \<le> maxResults"
  shows "\<exists>srcs. fst (searchWeb E query maxResults w) = Inr srcs \<and>
                int (length srcs) \<le> maxResults \<and>
                (srcs = [\<lparr>title = JString (str ''Search Results Unavailable''),
                          url = JString (str ''https://www.google.com/search?q='' @ q),
                          snippet = JString (str ''Could not fetch real-time sources. Click to search Google.'')\<rparr>]
                 \<or> (\<exists>body. fetch E q maxResults = FetchResponse True (Inr body) \<and>
                             sources_of_body body maxResults = Inr srcs))"
proof (cases "fetch E q maxResults")
  case (FetchRejects e)
  with assms show ?thesis
    by (simp add: searchWeb_def searchWeb_catch_def Let_def)
next
  case (FetchResponse ok body)
  show ?thesis
  proof (cases "ok \<and> (\<exists>v srcs. body = Inr v \<and> sources_of_body v maxResults = Inr srcs)")
    case True
    then obtain v srcs where v: "ok" "body = Inr v" "sources_of_body v maxResults = Inr srcs"
      by blast
    with assms FetchResponse sources_of_body_bound [OF v(3)] show ?thesis
      by (simp add: searchWeb_def Let_def)
  next
    case False
    with assms FetchResponse show ?thesis
      by (cases body; cases ok)
         (auto simp: searchWeb_def searchWeb_catch_def Let_def split: sum.splits)
  qed
qed

text \<open>
  Claim C10.  \<open>searchWeb\<close> is meant never to reject.  For a query that holds a lone
  surrogate it does: \<open>encodeURIComponent\<close> throws in the \<open>try\<close> block, the
  \<open>catch\<close> block encodes the same query again, and that second \<open>URIError\<close>
  leaves the function, before any request is sent.
\<close>

theorem searchWeb_rejects_on_lone_surrogate:
  "searchWeb E [0xD800] 5 w = (Inl URIError, w)"
  by (simp add: searchWeb_def searchWeb_catch_def uriUnreserved_def isLeadSurrogate_def)

section \<open>Properties of the orchestrator\<close>

subsection \<open>The aggregation\<close>

lemma length_allSettled:
  "length (fst (allSettled L topics len p s)) = length topics"
proof (induction topics arbitrary: s)
  case Nil
  then show ?case by simp
next
  case (Cons topic topics)
  obtain r s1 where r: "generateSingleBriefingForInterest L topic len p s = (r, s1)"
    by (cases "generateSingleBriefingForInterest L topic len p s")
  obtain rs s2 where rs: "allSettled L topics len p s1 = (rs, s2)"
    by (cases "allSettled L topics len p s1")
  from Cons.IH [of s1] rs have "length rs = length topics" by simp
  with r rs show ?case by simp
qed

lemma forEach_result_all_fulfilled:
  "\<forall>r\<in>set rs. \<exists>v. r = Inr v \<Longrightarrow>
   forEach_result topics rs k acc = acc\<lparr>briefings := briefings acc @ map projr rs\<rparr>"
  by (induction rs arbitrary: k acc) auto






lemma generateBriefing_resolved:
  assumes "fst (lib_getAvailableProviders L s) \<noteq> []"
  shows "generateBriefing L topics len provider s =
           (forEach_result topics
              (fst (allSettled L topics len
                      (if provider \<in> set (fst (lib_getAvailableProviders L s)) then provider
                       else hd (fst (lib_getAvailableProviders L s)))
                      (snd (lib_getAvailableProviders L s))))
              0 \<lparr>briefings = [], errors = []\<rparr>,
            snd (allSettled L topics len
                   (if provider \<in> set (fst (lib_getAvailableProviders L s)) then provider
                    else hd (fst (lib_getAvailableProviders L s)))
                   (snd (lib_getAvailableProviders L s))))"
  using assms
  by (cases "lib_getAvailableProviders L s")
     (auto simp: generateBriefing_def split: prod.splits list.splits)

subsection \<open>No provider\<close>

text \<open>
  Claim C6.  When the availability check reports no provider, \<open>generateBriefing\<close>
  returns no briefing and the single message that no provider is available, and the
  state is the one the availability check left: no summary and no posts were asked for.
\<close>

theorem generateBriefing_no_provider:
  "fst (lib_getAvailableProviders L s) = [] \<Longrightarrow>
   generateBriefing L topics len provider s =
     (\<lparr>briefings = [],
       errors = [str ''No AI providers available. Please configure at least one provider.'']\<rparr>,
      snd (lib_getAvailableProviders L s))"
  by (cases "lib_getAvailableProviders L s") (simp add: generateBriefing_def)

theorem generateBriefing_no_provider_witness:
  "generateBriefing none_available [str ''quantum computing''] short gemini (loaded False False) =
     (\<lparr>briefings = [],
       errors = [str ''No AI providers available. Please configure at least one provider.'']\<rparr>,
      loaded False False) \<and>
   calls (loaded False False) = []"
  using generateBriefing_no_provider
          [of none_available "loaded False False" "[str ''quantum computing'']" short gemini]
  by (simp add: none_available_def loaded_def)

subsection \<open>One pipeline\<close>

lemma fallback_tweets_mention_topic:
  "length (fallback_tweets topic) = 3 \<and>
   (\<forall>t\<in>set (fallback_tweets topic). \<exists>a b. t = a @ topic @ b)"
  unfolding fallback_tweets_def by (simp; blast)

text \<open>
  Claim C9.  In the pipeline of one topic, an empty summary makes the pipeline throw
  \<open>Empty summary generated\<close>, without asking for posts.  When the summary is not empty
  and the call for the posts throws, the pipeline still returns a briefing: the summary
  trimmed, the sources, and three placeholder posts that each contain the topic.
\<close>

theorem pipeline_empty_summary_and_failed_posts:
  "(lib_generateSummary L p topic len s = (Inr ([], srcs), s1) \<longrightarrow>
      generateSingleBriefingForInterest L topic len p s =
        (Inl (Error (str ''Empty summary generated'')), s1)) \<and>
   (lib_generateSummary L p topic len s = (Inr (smry, srcs), s1) \<and> smry \<noteq> [] \<and>
    lib_generateTweets L p smry s1 = (Inl e, s2) \<longrightarrow>
      generateSingleBriefingForInterest L topic len p s =
        (Inr \<lparr>interest = topic, summary = trim smry, sources = srcs,
              tweets = fallback_tweets topic, error = None\<rparr>, s2)) \<and>
   length (fallback_tweets topic) = 3 \<and>
   (\<forall>t\<in>set (fallback_tweets topic). \<exists>a b. t = a @ topic @ b)"
  using fallback_tweets_mention_topic [of topic]
  by (simp add: generateSingleBriefingForInterest_def)

theorem pipeline_empty_summary_and_failed_posts_witness:
  "generateSingleBriefingForInterest (ai_providers (answering [])) (str ''ai'') short gemini
     (loaded True False)
     = (Inl (Error (str ''Empty summary generated'')),
        (loaded True False)\<lparr>calls := [GeminiGenerate (SummaryPrompt (str ''ai'') short)]\<rparr>) \<and>
   generateSingleBriefingForInterest (ai_providers posts_failing) (str ''ai'') short gemini
     (loaded True False)
     = (Inr \<lparr>interest = str ''ai'', summary = str ''Some news'', sources = [],
             tweets = fallback_tweets (str ''ai''), error = None\<rparr>,
        (loaded True False)\<lparr>calls := [GeminiGenerate (SummaryPrompt (str ''ai'') short),
                                      GeminiGenerate (TweetPrompt (str ''Some news''))]\<rparr>)"
  using pipeline_empty_summary_and_failed_posts
          [of "ai_providers (answering [])" gemini "str ''ai''" short "loaded True False" "[]"
              "(loaded True False)\<lparr>calls := [GeminiGenerate (SummaryPrompt (str ''ai'') short)]\<rparr>"]
        pipeline_empty_summary_and_failed_posts
          [of "ai_providers posts_failing" gemini "str ''ai''" short "loaded True False" "[]"
              "(loaded True False)\<lparr>calls := [GeminiGenerate (SummaryPrompt (str ''ai'') short)]\<rparr>"
              "str ''Some news''" "Error (str ''quota exceeded'')"
              "(loaded True False)\<lparr>calls := [GeminiGenerate (SummaryPrompt (str ''ai'') short),
                                      GeminiGenerate (TweetPrompt (str ''Some news''))]\<rparr>"]
  by (simp add: ai_providers_def answering_def posts_failing_def offline_def loaded_def
        AIProviderManager_generateSummary_def AIProviderManager_generateTweets_def
        GeminiProvider_generateSummary_def GeminiProvider_generateTweets_def
        copySelectedModel_def send_def renderMarkdown_def Let_def trim_def isWhiteSpace_def
        str_def)

subsection \<open>One failing topic\<close>
























subsection \<open>Every topic succeeds\<close>

text \<open>
  Claim C2 says that the error list is empty whenever the calls of the provider all
  succeed.  A summary call that succeeds with an empty text still makes its topic fail:
  here Ollama answers the empty text, both calls of the manager return normally, and the
  error list has one message.
\<close>

theorem generateBriefing_empty_summary_is_an_error:
  "map_sum id fst
     (fst (AIProviderManager_generateSummary (answering []) ollama (str ''ai'') short
             (snd (getAvailableProviders (loaded False False))))) = Inr [] \<and>
   fst (AIProviderManager_generateTweets (answering []) ollama (str ''ai'')
          (snd (getAvailableProviders (loaded False False)))) = Inr placeholder_tweets \<and>
   errors (fst (generateBriefing (ai_providers (answering [])) [str ''ai''] short ollama
                  (loaded False False)))
     = [str ''Failed to generate briefing for '' @ [0x22] @ str ''ai'' @ [0x22]
          @ str '': Empty summary generated'']"
  by (simp add: generateBriefing_def ai_providers_def answering_def offline_def loaded_def
        getAvailableProviders_def listOllamaModels_def Let_def
        generateSingleBriefingForInterest_def AIProviderManager_generateSummary_def
        AIProviderManager_generateTweets_def OllamaProvider_generateTweets_def
        OllamaProvider_generateSummary_def copySelectedModel_def send_def str_def
        searchWeb_def searchWeb_catch_def uriUnreserved_def renderMarkdown_def
        tweets_of_empty_content)

lemma pipeline_fulfilled:
  assumes "lib_generateSummary L p topic len s = (Inr (smry, srcs), s1)" and "smry \<noteq> []"
  shows "\<exists>v. generateSingleBriefingForInterest L topic len p s =
               (Inr v, snd (lib_generateTweets L p smry s1)) \<and> interest v = topic"
  using assms
  by (cases "lib_generateTweets L p smry s1"; cases "fst (lib_generateTweets L p smry s1)")
     (auto simp: generateSingleBriefingForInterest_def)

lemma allSettled_all_fulfilled:
  assumes summaries:
        "\<forall>topic\<in>set topics. \<forall>s'. Inv s' \<longrightarrow>
           (\<exists>smry srcs s''. lib_generateSummary L p topic len s' = (Inr (smry, srcs), s'') \<and>
                            smry \<noteq> [] \<and> Inv s'')"
      and posts: "\<forall>smry s'. Inv s' \<longrightarrow> Inv (snd (lib_generateTweets L p smry s'))"
      and "Inv s"
  shows "(\<forall>r\<in>set (fst (allSettled L topics len p s)). \<exists>v. r = Inr v) \<and>
         map (interest \<circ> projr) (fst (allSettled L topics len p s)) = topics"
  using summaries \<open>Inv s\<close>
proof (induction topics arbitrary: s)
  case Nil
  then show ?case by simp
next
  case (Cons topic topics)
  from Cons.prems obtain smry srcs s1
    where sm: "lib_generateSummary L p topic len s = (Inr (smry, srcs), s1)"
      and ne: "smry \<noteq> []" and inv1: "Inv s1"
    by (meson list.set_intros(1))
  from pipeline_fulfilled [OF sm ne] obtain v
    where v: "generateSingleBriefingForInterest L topic len p s =
                (Inr v, snd (lib_generateTweets L p smry s1))"
      and iv: "interest v = topic"
    by blast
  from posts inv1 have inv2: "Inv (snd (lib_generateTweets L p smry s1))" by blast
  have rest: "\<forall>topic\<in>set topics. \<forall>s'. Inv s' \<longrightarrow>
           (\<exists>smry srcs s''. lib_generateSummary L p topic len s' = (Inr (smry, srcs), s'') \<and>
                            smry \<noteq> [] \<and> Inv s'')"
    using Cons.prems(1) by simp
  obtain rs s2 where rs: "allSettled L topics len p (snd (lib_generateTweets L p smry s1)) = (rs, s2)"
    by (cases "allSettled L topics len p (snd (lib_generateTweets L p smry s1))")
  from Cons.IH [OF rest inv2] v iv rs show ?case
    by simp
qed

text \<open>
  Claim C2, amended.  When a provider is available and, all along the run (in every
  state \<open>Inv\<close> holds of, which the calls preserve), each summary call of the provider
  in use returns a summary that is not empty, \<open>generateBriefing\<close> returns exactly one
  entry per topic, in the order of the topics, and no error message; whether the calls
  for the posts succeed does not matter.  The provider in use is the requested one when
  it is available and the first available one otherwise.
\<close>

theorem generateBriefing_all_succeed:
  assumes "available = fst (lib_getAvailableProviders L s)"
      and "available \<noteq> []"
      and "p = (if provider \<in> set available then provider else hd available)"
      and "Inv (snd (lib_getAvailableProviders L s))"
      and "\<forall>topic\<in>set topics. \<forall>s'. Inv s' \<longrightarrow>
             (\<exists>smry srcs s''. lib_generateSummary L p topic len s' = (Inr (smry, srcs), s'') \<and>
                              smry \<noteq> [] \<and> Inv s'')"
      and "\<forall>smry s'. Inv s' \<longrightarrow> Inv (snd (lib_generateTweets L p smry s'))"
  shows "length (briefings (fst (generateBriefing L topics len provider s))) = length topics \<and>
         map interest (briefings (fst (generateBriefing L topics len provider s))) = topics \<and>
         errors (fst (generateBriefing L topics len provider s)) = []"
proof -
  let ?results = "fst (allSettled L topics len p (snd (lib_getAvailableProviders L s)))"
  have R: "fst (generateBriefing L topics len provider s) =
             forEach_result topics ?results 0 \<lparr>briefings = [], errors = []\<rparr>"
    using assms(1-3) by (simp add: generateBriefing_resolved)
  from allSettled_all_fulfilled [OF assms(5) assms(6) assms(4)]
  have ok: "\<forall>r\<in>set ?results. \<exists>v. r = Inr v"
    and names: "map (interest \<circ> projr) ?results = topics"
    by blast+
  have "fst (generateBriefing L topics len provider s) =
          \<lparr>briefings = map projr ?results, errors = []\<rparr>"
    by (simp add: R forEach_result_all_fulfilled [OF ok])
  with names show ?thesis
    by (simp add: length_allSettled)
qed

theorem generateBriefing_all_succeed_witness:
  "length (briefings (fst (generateBriefing (ai_providers (answering (str ''Some news'')))
                             [str ''ai'', str ''climate''] medium gemini (loaded True False)))) = 2 \<and>
   map interest (briefings (fst (generateBriefing (ai_providers (answering (str ''Some news'')))
                             [str ''ai'', str ''climate''] medium gemini (loaded True False))))
     = [str ''ai'', str ''climate''] \<and>
   errors (fst (generateBriefing (ai_providers (answering (str ''Some news'')))
                  [str ''ai'', str ''climate''] medium gemini (loaded True False))) = []"
proof -
  let ?L = "ai_providers (answering (str ''Some news''))"
  have avail: "fst (lib_getAvailableProviders ?L (loaded True False)) = [gemini, ollama]"
    by (simp add: ai_providers_def getAvailableProviders_def listOllamaModels_def loaded_def Let_def)
  have nonempty: "fst (lib_getAvailableProviders ?L (loaded True False)) \<noteq> []"
    by (simp add: avail)
  have p: "gemini = (if gemini \<in> set (fst (lib_getAvailableProviders ?L (loaded True False)))
                     then gemini
                     else hd (fst (lib_getAvailableProviders ?L (loaded True False))))"
    by (simp add: avail)
  have inv0: "gemini_client (snd (lib_getAvailableProviders ?L (loaded True False)))"
    by (simp add: ai_providers_def getAvailableProviders_def listOllamaModels_def loaded_def Let_def)
  have summaries:
    "\<forall>topic\<in>set [str ''ai'', str ''climate'']. \<forall>s'. gemini_client s' \<longrightarrow>
       (\<exists>smry srcs s''. lib_generateSummary ?L gemini topic medium s' = (Inr (smry, srcs), s'') \<and>
                        smry \<noteq> [] \<and> gemini_client s'')"
    by (simp add: ai_providers_def answering_def offline_def
          AIProviderManager_generateSummary_def GeminiProvider_generateSummary_def
          copySelectedModel_def send_def renderMarkdown_def Let_def str_def)
  have posts:
    "\<forall>smry s'. gemini_client s' \<longrightarrow> gemini_client (snd (lib_generateTweets ?L gemini smry s'))"
    by (simp add: ai_providers_def answering_def offline_def
          AIProviderManager_generateTweets_def GeminiProvider_generateTweets_def
          copySelectedModel_def send_def Let_def)
  from generateBriefing_all_succeed [OF refl nonempty p inv0 summaries posts]
  show ?thesis by simp
qed

end
